theory Spec2Isabelle
  imports Main "HOL-Library.Word" "HOL-Library.Sublist"
begin

section \<open>Strings and numbers of the JavaScript runtime\<close>

text \<open>
  A JavaScript string is a sequence of 16-bit code units; \<open>length\<close>, \<open>includes\<close>,
  \<open>replace\<close> and \<open>trim\<close> all work on code units. The literals of \<open>app.js\<close> are ASCII, so
  they are written as HOL strings and embedded with \<open>lit\<close>.
\<close>

type_synonym jschar = "16 word"
type_synonym jsstring = "jschar list"

definition lit :: "string \<Rightarrow> jsstring" where
  "lit s = map of_char s"

text \<open>
  \<open>String.prototype.includes(pat)\<close> (\<open>includes\<close> is a keyword of Isabelle, hence the
  prefix): \<open>pat\<close> occurs somewhere as a contiguous run.
\<close>

fun str_includes :: "jsstring \<Rightarrow> jsstring \<Rightarrow> bool" where
  "str_includes [] pat = (pat = [])"
| "str_includes (c # cs) pat = (prefix pat (c # cs) \<or> str_includes cs pat)"

text \<open>
  \<open>String.prototype.replace(pat, rep)\<close> with a string pattern: only the leftmost occurrence
  is replaced; a string without occurrence is returned unchanged. (The only replacement
  text in \<open>app.js\<close> is the empty string, which has no \<open>$\<close> patterns to expand.)
\<close>

fun replace :: "jsstring \<Rightarrow> jsstring \<Rightarrow> jsstring \<Rightarrow> jsstring" where
  "replace [] pat rep = (if pat = [] then rep else [])"
| "replace (c # cs) pat rep =
     (if prefix pat (c # cs) then rep @ drop (length pat) (c # cs)
      else c # replace cs pat rep)"

text \<open>
  \<open>String.prototype.trim()\<close> removes leading and trailing WhiteSpace and LineTerminator
  code points: TAB, LF, VT, FF, CR, SP, NBSP, U+1680, U+2000..U+200A, U+2028, U+2029,
  U+202F, U+205F, U+3000 and U+FEFF.
\<close>

definition is_ws :: "jschar \<Rightarrow> bool" where
  "is_ws c \<longleftrightarrow> c \<in> set [0x09, 0x0A, 0x0B, 0x0C, 0x0D, 0x20, 0xA0, 0x1680,
      0x2000, 0x2001, 0x2002, 0x2003, 0x2004, 0x2005, 0x2006, 0x2007, 0x2008, 0x2009, 0x200A,
      0x2028, 0x2029, 0x202F, 0x205F, 0x3000, 0xFEFF]"

definition trim :: "jsstring \<Rightarrow> jsstring" where
  "trim s = rev (dropWhile is_ws (rev (dropWhile is_ws s)))"

text \<open>
  \<open>duration.match(/\d+/)\<close>: the regular expression is not global, so the result is
  \<open>null\<close> (here \<open>None\<close>) or the leftmost match; \<open>\d\<close> is an ASCII digit and \<open>+\<close> is greedy.
\<close>

definition is_digit :: "jschar \<Rightarrow> bool" where
  "is_digit c \<longleftrightarrow> 0x30 \<le> c \<and> c \<le> 0x39"

definition match_digits :: "jsstring \<Rightarrow> jsstring option" where
  "match_digits s =
     (case dropWhile (\<lambda>c. \<not> is_digit c) s of
        [] \<Rightarrow> None
      | d # ds \<Rightarrow> Some (takeWhile is_digit (d # ds)))"

text \<open>
  The Numbers that occur in \<open>generateFallbackPlan\<close> are \<open>NaN\<close>, \<open>+Infinity\<close> and
  non-negative integral doubles (the one fractional intermediate, \<open>durationWeeks * 0.7\<close>, is
  consumed by \<open>Math.ceil\<close> at once). \<open>Fin n\<close> is the double whose exact value is \<open>n\<close>.
\<close>

datatype jsnumber = NaN | Fin nat | Infinity

fun bitlength :: "nat \<Rightarrow> nat" where
  "bitlength n = (if n = 0 then 0 else Suc (bitlength (n div 2)))"

declare bitlength.simps [simp del]

text \<open>
  Rounding to a 53-bit significand, to nearest, ties to even: the low \<open>e\<close> bits beyond
  the 53 leading ones are dropped and the rest is rounded up when the dropped part is more
  than half a unit, or exactly half with an odd kept part.
\<close>

definition round53 :: "nat \<Rightarrow> nat" where
  "round53 n =
     (let e = bitlength n - 53;
          q = n div 2 ^ e;
          r = n mod 2 ^ e;
          q' = (if 2 * r > 2 ^ e \<or> (2 * r = 2 ^ e \<and> odd q) then q + 1 else q)
      in q' * 2 ^ e)"

text \<open>The Number value of a mathematical integer; beyond the largest double it is infinite.\<close>

definition to_Number :: "nat \<Rightarrow> jsnumber" where
  "to_Number n = (let v = round53 n in if 2 ^ 1024 \<le> v then Infinity else Fin v)"

text \<open>
  \<open>parseInt\<close> applied to the result of \<open>match\<close>: \<open>null\<close> becomes the string \<open>"null"\<close>, which
  has no leading digit, so the result is \<open>NaN\<close>; a match array becomes its only element, a
  non-empty digit string, which is read in radix 10 (leading zeros are just digits) and
  converted to the nearest Number. (Beyond 20 significant digits ECMAScript allows an
  implementation to read the further digits as zeros; the exact conversion is modelled.)
\<close>

definition decimal_value :: "jsstring \<Rightarrow> nat" where
  "decimal_value ds = foldl (\<lambda>acc c. 10 * acc + (unat c - 48)) 0 ds"

definition parseInt :: "jsstring option \<Rightarrow> jsnumber" where
  "parseInt m = (case m of None \<Rightarrow> NaN | Some ds \<Rightarrow> to_Number (decimal_value ds))"

text \<open>\<open>x || 4\<close> on Numbers: \<open>NaN\<close> and zero are falsy.\<close>

definition or_4 :: "jsnumber \<Rightarrow> jsnumber" where
  "or_4 x = (if x = NaN \<or> x = Fin 0 then Fin 4 else x)"

text \<open>\<open>x > k\<close> for an integer literal \<open>k\<close>.\<close>

fun gt :: "jsnumber \<Rightarrow> nat \<Rightarrow> bool" where
  "gt NaN k = False"
| "gt (Fin n) k = (k < n)"
| "gt Infinity k = True"

text \<open>
  \<open>Math.ceil(x * 0.7)\<close>. The double nearest to 0.7 is \<open>6305039478318694 / 2^53\<close>; the
  exact product is rounded to 53 bits and the ceiling taken from the rounded value.
\<close>

fun ceil_times_0_7 :: "jsnumber \<Rightarrow> jsnumber" where
  "ceil_times_0_7 NaN = NaN"
| "ceil_times_0_7 (Fin n) = Fin ((round53 (n * 6305039478318694) + (2 ^ 53 - 1)) div 2 ^ 53)"
| "ceil_times_0_7 Infinity = Infinity"

text \<open>\<open>x + 1\<close> and \<open>x - 1\<close>: the exact result, rounded again.\<close>

fun plus_1 :: "jsnumber \<Rightarrow> jsnumber" where
  "plus_1 NaN = NaN"
| "plus_1 (Fin n) = to_Number (n + 1)"
| "plus_1 Infinity = Infinity"

text \<open>
  \<open>minus_1\<close> is only applied to \<open>durationWeeks\<close>, which is never zero (see \<open>or_4\<close>), so the
  value \<open>-1\<close> is not needed in \<open>jsnumber\<close>.
\<close>

fun minus_1 :: "jsnumber \<Rightarrow> jsnumber" where
  "minus_1 NaN = NaN"
| "minus_1 (Fin n) = to_Number (n - 1)"
| "minus_1 Infinity = Infinity"

subsection \<open>Number to string\<close>

fun decimal :: "nat \<Rightarrow> jsstring" where
  "decimal n = (if n < 10 then [of_nat (48 + n)] else decimal (n div 10) @ [of_nat (48 + n mod 10)])"

declare decimal.simps [simp del]

text \<open>
  \<open>Number::toString\<close> prints the shortest digit string \<open>s\<close> (of \<open>k\<close> digits, scaled to
  \<open>n\<close> integer digits) that still converts back to the same Number. An integer below
  \<open>2^53\<close> is exact and is its own shortest digit string. Above, the neighbouring doubles
  are further apart and fewer digits may do; the candidates for a given \<open>k\<close> are the two
  \<open>k\<close>-digit prefixes around the value and the next power of ten.
\<close>

definition digit_candidates :: "nat \<Rightarrow> nat \<Rightarrow> (nat \<times> nat) list" where
  "digit_candidates x k =
     (let d = length (decimal x); lo = x div 10 ^ (d - k)
      in filter (\<lambda>(n, s). 10 ^ (k - 1) \<le> s \<and> s < 10 ^ k \<and> to_Number (s * 10 ^ (n - k)) = Fin x)
           [(d, lo), (d, lo + 1), (d + 1, 10 ^ (k - 1))])"

definition distance :: "nat \<Rightarrow> nat \<Rightarrow> nat \<times> nat \<Rightarrow> int" where
  "distance x k c = (case c of (n, s) \<Rightarrow> \<bar>int (s * 10 ^ (n - k)) - int x\<bar>)"

fun closest :: "nat \<Rightarrow> nat \<Rightarrow> (nat \<times> nat) list \<Rightarrow> nat \<times> nat" where
  "closest x k [] = (0, 0)"
| "closest x k [c] = c"
| "closest x k (c # c' # cs) =
     (let b = closest x k (c' # cs)
      in if distance x k c < distance x k b \<or> (distance x k c = distance x k b \<and> even (snd c))
         then c else b)"

definition shortest_digits :: "nat \<Rightarrow> nat \<times> nat \<times> nat" where
  "shortest_digits x =
     (case List.find (\<lambda>k. digit_candidates x k \<noteq> []) [1..<18] of
        Some k \<Rightarrow> (case closest x k (digit_candidates x k) of (n, s) \<Rightarrow> (n, k, s))
      | None \<Rightarrow> (length (decimal x), length (decimal x), x))"

definition Number_toString :: "jsnumber \<Rightarrow> jsstring" where
  "Number_toString x =
     (case x of
        NaN \<Rightarrow> lit ''NaN''
      | Infinity \<Rightarrow> lit ''Infinity''
      | Fin v \<Rightarrow>
          if v < 2 ^ 53 then decimal v
          else (case shortest_digits v of (n, k, s) \<Rightarrow>
            if n \<le> 21 then decimal s @ replicate (n - k) 0x30
            else if k = 1 then decimal s @ lit ''e+'' @ decimal (n - 1)
            else take 1 (decimal s) @ lit ''.'' @ drop 1 (decimal s) @ lit ''e+'' @ decimal (n - 1)))"

section \<open>The template fallback generator\<close>

text \<open>
  \<open>generateFallbackPlan\<close> (lines 30 to 95 of \<open>app.js\<close>). The template literal is cut at
  its blank lines into the header, the four phases and the closing sections; their
  concatenation is the literal, character for character. \<open>durationWeeks\<close> is the
  constant of line 31.
\<close>

definition durationWeeks_of :: "jsstring \<Rightarrow> jsnumber" where
  "durationWeeks_of duration = or_4 (parseInt (match_digits duration))"

definition plan_header :: "jsstring \<Rightarrow> jsstring \<Rightarrow> jsstring \<Rightarrow> jsstring \<Rightarrow> jsstring" where
  "plan_header subject level duration goals =
     lit ''Study Plan for '' @ subject @ lit '' ('' @ level @ lit '' Level)\<newline>'' @
     lit ''Duration: '' @ duration @ lit ''\<newline>'' @
     lit ''Goals: '' @ goals @ lit ''\<newline>'' @
     lit ''\<newline>'' @
     lit ''=== STUDY PLAN OVERVIEW ===\<newline>'' @
     lit ''\<newline>''"

definition phase_1 :: "jsnumber \<Rightarrow> jsstring" where
  "phase_1 durationWeeks =
     lit ''Phase 1: Foundation (Week 1'' @
     (if gt durationWeeks 2 then lit ''-2'' else []) @
     lit '')\<newline>'' @
     lit ''- Review fundamental concepts and terminology\<newline>'' @
     lit ''- Gather study materials and resources\<newline>'' @
     lit ''- Establish daily study routine (1-2 hours)\<newline>'' @
     lit ''- Complete basic exercises and assessments\<newline>'' @
     lit ''\<newline>''"

definition phase_2 :: "jsnumber \<Rightarrow> jsstring" where
  "phase_2 durationWeeks =
     lit ''Phase 2: Core Learning (Week '' @
     (if gt durationWeeks 2 then lit ''3-'' @ Number_toString (ceil_times_0_7 durationWeeks)
      else lit ''2'') @
     lit '')\<newline>'' @
     lit ''- Deep dive into main topics and concepts\<newline>'' @
     lit ''- Practice problem-solving techniques\<newline>'' @
     lit ''- Create summary notes and mind maps\<newline>'' @
     lit ''- Regular self-assessment and progress tracking\<newline>'' @
     lit ''\<newline>''"

definition phase_3 :: "jsnumber \<Rightarrow> jsstring" where
  "phase_3 durationWeeks =
     lit ''Phase 3: Advanced Application (Week '' @
     Number_toString (plus_1 (ceil_times_0_7 durationWeeks)) @
     lit ''-'' @
     Number_toString (minus_1 durationWeeks) @
     lit '')\<newline>'' @
     lit ''- Explore complex topics and real-world applications\<newline>'' @
     lit ''- Work on challenging problems and case studies\<newline>'' @
     lit ''- Connect concepts across different areas\<newline>'' @
     lit ''- Prepare for practical implementation\<newline>'' @
     lit ''\<newline>''"

definition phase_4 :: "jsstring" where
  "phase_4 =
     lit ''Phase 4: Review & Mastery (Final Week)\<newline>'' @
     lit ''- Comprehensive review of all materials\<newline>'' @
     lit ''- Practice tests and mock examinations\<newline>'' @
     lit ''- Identify and address knowledge gaps\<newline>'' @
     lit ''- Final preparation and confidence building\<newline>'' @
     lit ''\<newline>''"

definition daily_structure :: "jsstring" where
  "daily_structure =
     lit ''=== DAILY STUDY STRUCTURE ===\<newline>'' @
     lit ''\<newline>'' @
     lit ''Morning Session (30-45 minutes):\<newline>'' @
     lit ''- Review previous day'' @ [0x27] @ lit ''s material\<newline>'' @
     lit ''- Preview new concepts for the day\<newline>'' @
     lit ''\<newline>'' @
     lit ''Main Study Session (60-90 minutes):\<newline>'' @
     lit ''- Focus on new topic learning\<newline>'' @
     lit ''- Complete practice exercises\<newline>'' @
     lit ''- Take detailed notes\<newline>'' @
     lit ''\<newline>'' @
     lit ''Evening Review (15-30 minutes):\<newline>'' @
     lit ''- Summarize key learnings\<newline>'' @
     lit ''- Plan next day'' @ [0x27] @ lit ''s study goals\<newline>'' @
     lit ''- Update progress tracker\<newline>'' @
     lit ''\<newline>''"

definition weekly_milestones :: "jsnumber \<Rightarrow> jsstring" where
  "weekly_milestones durationWeeks =
     lit ''=== WEEKLY MILESTONES ===\<newline>'' @
     lit ''\<newline>'' @
     lit ''Week 1: Master foundational concepts\<newline>'' @
     lit ''Week 2: Complete core topic modules\<newline>'' @
     (if gt durationWeeks 2 then lit ''Week 3: Apply knowledge to practical scenarios\<newline>''
      else []) @
     (if gt durationWeeks 3 then lit ''Week 4: Integrate advanced concepts\<newline>''
      else []) @
     lit ''Final Week: Achieve mastery and meet stated goals\<newline>'' @
     lit ''\<newline>''"

definition study_tips :: "jsstring" where
  "study_tips =
     lit ''=== STUDY TIPS ===\<newline>'' @
     lit ''\<newline>'' @
     lit ''- Use active learning techniques (summarizing, teaching others)\<newline>'' @
     lit ''- Take regular breaks using the Pomodoro technique\<newline>'' @
     lit ''- Create a distraction-free study environment\<newline>'' @
     lit ''- Join study groups or find accountability partners\<newline>'' @
     lit ''- Regularly assess progress and adjust plan as needed\<newline>'' @
     lit ''\<newline>'' @
     lit ''Note: This is a template plan generated when AI services are unavailable. '' @
     lit ''For a more personalized and detailed study plan, please try again later '' @
     lit ''when our AI service is restored.''"

text \<open>The template literal of lines 34 to 94, for a given \<open>durationWeeks\<close>.\<close>

definition plan_template ::
  "jsnumber \<Rightarrow> jsstring \<Rightarrow> jsstring \<Rightarrow> jsstring \<Rightarrow> jsstring \<Rightarrow> jsstring" where
  "plan_template durationWeeks subject level duration goals =
     plan_header subject level duration goals @
     phase_1 durationWeeks @ phase_2 durationWeeks @ phase_3 durationWeeks @ phase_4 @
     daily_structure @ weekly_milestones durationWeeks @ study_tips"

text \<open>\<open>weeksText\<close> (line 32) is computed and never used.\<close>

definition generateFallbackPlan ::
  "jsstring \<Rightarrow> jsstring \<Rightarrow> jsstring \<Rightarrow> jsstring \<Rightarrow> jsstring" where
  "generateFallbackPlan subject level duration goals =
     (let durationWeeks = durationWeeks_of duration;
          weeksText = (if gt durationWeeks 1 then lit ''weeks'' else lit ''week'')
      in plan_template durationWeeks subject level duration goals)"

section \<open>The handler of \<open>POST /generate-plan\<close>\<close>

text \<open>
  The JSON objects the handler builds (the response body and the document given to the
  store) are lists of key and value in the order of the object literal.
  \<open>ServerTimestamp\<close> is the sentinel \<open>FieldValue.serverTimestamp()\<close>.
\<close>

datatype json = JString jsstring | JBool bool | ServerTimestamp

type_synonym object = "(string \<times> json) list"

record http_response =
  status :: nat
  json :: object

text \<open>
  The two remote services. \<open>inference.textGeneration\<close> either rejects or resolves. A
  rejection carries an \<open>Error\<close> object, as the library throws, of which the handler reads only
  the \<open>message\<close>. Of the resolved value the handler reads only \<open>generated_text\<close>, a string, which
  is \<open>None\<close> when the value is null or has no such field. The generation parameters are the
  same constants in every call and are left out. \<open>db.collection('studyPlans').add\<close> resolves
  with a reference, of which only the \<open>id\<close> is read, or rejects.
\<close>

datatype textgen_outcome = Rejects jsstring | Resolves "jsstring option"

datatype add_outcome = Added jsstring | AddFails

record services =
  textGeneration :: "jsstring \<Rightarrow> jsstring \<Rightarrow> textgen_outcome"
  add :: "object \<Rightarrow> add_outcome"

text \<open>What a request did to the outside world, in order.\<close>

datatype effect = TextGeneration jsstring jsstring | StoreAdd object

definition performed :: "effect \<Rightarrow> http_response \<times> effect list \<Rightarrow> http_response \<times> effect list" where
  "performed e r = (fst r, e # snd r)"

text \<open>The prompt, lines 139 to 155.\<close>

definition build_prompt :: "jsstring \<Rightarrow> jsstring \<Rightarrow> jsstring \<Rightarrow> jsstring \<Rightarrow> jsstring" where
  "build_prompt subject level duration goals =
     lit ''Create a comprehensive, personalized study plan with the following specifications:\<newline>'' @
     lit ''\<newline>'' @
     lit ''Subject: '' @ subject @ lit ''\<newline>'' @
     lit ''Academic Level: '' @ level @ lit ''\<newline>'' @
     lit ''Study Duration: '' @ duration @ lit ''\<newline>'' @
     lit ''Learning Goals: '' @ goals @ lit ''\<newline>'' @
     lit ''\<newline>'' @
     lit ''Please structure the response with:\<newline>'' @
     lit ''1. Study plan overview with phases\<newline>'' @
     lit ''2. Weekly breakdown with specific topics\<newline>'' @
     lit ''3. Daily study schedule recommendations\<newline>'' @
     lit ''4. Key milestones and checkpoints\<newline>'' @
     lit ''5. Assessment methods and progress tracking\<newline>'' @
     lit ''6. Recommended resources and materials\<newline>'' @
     lit ''7. Tips for effective learning\<newline>'' @
     lit ''\<newline>'' @
     lit ''Make the plan detailed, practical, and tailored to the specified level and duration.''"

text \<open>The list of models, lines 158 to 164.\<close>

definition models :: "jsstring list" where
  "models =
     [lit ''mistralai/Mistral-7B-Instruct-v0.3'',
      lit ''microsoft/DialoGPT-medium'',
      lit ''google/flan-t5-large'',
      lit ''facebook/blenderbot-400M-distill'',
      lit ''bigscience/bloom-560m'']"

text \<open>
  Lines 189 to 194: the prompt is cut out of the generated text, and the rest trimmed, only
  when the text includes it.
\<close>

definition strip_echo :: "jsstring \<Rightarrow> jsstring \<Rightarrow> jsstring" where
  "strip_echo generated_text prompt =
     (if str_includes generated_text prompt then trim (replace generated_text prompt [])
      else generated_text)"

text \<open>
  Lines 246 to 282, reached when the loop has run through every model: the template plan is
  saved and returned.
\<close>

definition fallback_branch ::
  "services \<Rightarrow> jsstring \<Rightarrow> jsstring \<Rightarrow> jsstring \<Rightarrow> jsstring \<Rightarrow> http_response \<times> effect list" where
  "fallback_branch sv subject level duration goals =
     (let fallbackPlan = generateFallbackPlan subject level duration goals;
          doc = [(''subject'', JString subject), (''level'', JString level),
                 (''duration'', JString duration), (''goals'', JString goals),
                 (''plan'', JString fallbackPlan), (''modelUsed'', JString (lit ''fallback'')),
                 (''createdAt'', ServerTimestamp), (''isAiGenerated'', JBool False)]
      in performed (StoreAdd doc)
           (case add sv doc of
              Added planId \<Rightarrow>
                (\<lparr>status = 200,
                  json = [(''success'', JBool True), (''plan'', JString fallbackPlan),
                          (''planId'', JString planId), (''modelUsed'', JString (lit ''fallback'')),
                          (''isAiGenerated'', JBool False),
                          (''message'', JString (lit (''AI services are currently unavailable. '' @
                             ''A template study plan has been generated for you.'')))]\<rparr>, [])
            | AddFails \<Rightarrow>
                (\<lparr>status = 200,
                  json = [(''success'', JBool True), (''plan'', JString fallbackPlan),
                          (''modelUsed'', JString (lit ''fallback'')),
                          (''isAiGenerated'', JBool False),
                          (''message'', JString (lit (''AI services are currently unavailable. '' @
                             ''A template study plan has been generated for you.''))),
                          (''warning'', JString (lit
                             ''Plan not saved to database due to connection issues''))]\<rparr>, [])))"

text \<open>
  Lines 204 to 234: the accepted text is saved and returned; both arms return from the
  handler.
\<close>

definition accept_branch ::
  "services \<Rightarrow> jsstring \<Rightarrow> jsstring \<Rightarrow> jsstring \<Rightarrow> jsstring \<Rightarrow> jsstring \<Rightarrow> jsstring
     \<Rightarrow> http_response \<times> effect list" where
  "accept_branch sv subject level duration goals model generatedText =
     (let doc = [(''subject'', JString subject), (''level'', JString level),
                 (''duration'', JString duration), (''goals'', JString goals),
                 (''plan'', JString generatedText), (''modelUsed'', JString model),
                 (''createdAt'', ServerTimestamp), (''isAiGenerated'', JBool True)]
      in performed (StoreAdd doc)
           (case add sv doc of
              Added planId \<Rightarrow>
                (\<lparr>status = 200,
                  json = [(''success'', JBool True), (''plan'', JString generatedText),
                          (''planId'', JString planId), (''modelUsed'', JString model),
                          (''isAiGenerated'', JBool True)]\<rparr>, [])
            | AddFails \<Rightarrow>
                (\<lparr>status = 200,
                  json = [(''success'', JBool True), (''plan'', JString generatedText),
                          (''modelUsed'', JString model), (''isAiGenerated'', JBool True),
                          (''warning'', JString (lit
                             ''Plan generated successfully but not saved to database''))]\<rparr>, [])))"

text \<open>
  The loop of lines 170 to 244 over the remaining models. A rejected call (line 239), a
  response without text or with the empty text (line 235) and a text shorter than 100
  code units (line 197) all go on to the next model; \<open>lastError\<close> and \<open>modelUsed\<close> are
  assigned and never read.
\<close>

fun try_models ::
  "services \<Rightarrow> jsstring \<Rightarrow> jsstring \<Rightarrow> jsstring \<Rightarrow> jsstring \<Rightarrow> jsstring \<Rightarrow> jsstring list
     \<Rightarrow> http_response \<times> effect list" where
  "try_models sv subject level duration goals prompt [] =
     fallback_branch sv subject level duration goals"
| "try_models sv subject level duration goals prompt (model # rest) =
     performed (TextGeneration model prompt)
       (case textGeneration sv model prompt of
          Rejects message \<Rightarrow> try_models sv subject level duration goals prompt rest
        | Resolves None \<Rightarrow> try_models sv subject level duration goals prompt rest
        | Resolves (Some generated_text) \<Rightarrow>
            if generated_text = [] then try_models sv subject level duration goals prompt rest
            else
              let generatedText = strip_echo generated_text prompt
              in if length generatedText < 100
                 then try_models sv subject level duration goals prompt rest
                 else accept_branch sv subject level duration goals model generatedText)"

text \<open>
  The handler, for a given list of models. \<open>req.body\<close> is the parsed JSON object, here
  with string fields only; a field is falsy when it is missing or the empty string.
\<close>

type_synonym body = "string \<rightharpoonup> jsstring"

definition falsy :: "jsstring option \<Rightarrow> bool" where
  "falsy v \<longleftrightarrow> v = None \<or> v = Some []"

definition generate_plan_with :: "jsstring list \<Rightarrow> services \<Rightarrow> body \<Rightarrow> http_response \<times> effect list" where
  "generate_plan_with ms sv b =
     (let subject = b ''subject''; level = b ''level'';
          duration = b ''duration''; goals = b ''goals''
      in if falsy subject \<or> falsy level \<or> falsy duration \<or> falsy goals
         then (\<lparr>status = 400,
                 json = [(''error'', JString (lit (''Missing required fields: subject, level, '' @
                            ''duration, and goals are all required'')))]\<rparr>, [])
         else try_models sv (the subject) (the level) (the duration) (the goals)
                (build_prompt (the subject) (the level) (the duration) (the goals)) ms)"

definition generate_plan :: "services \<Rightarrow> body \<Rightarrow> http_response \<times> effect list" where
  "generate_plan = generate_plan_with models"


section \<open>Notions of the specification\<close>

text \<open>
  The definitions of this section are not taken from \<open>app.js\<close>; they say, in the words of
  the specification, what the claims below are about.
\<close>

text \<open>
  The first integer found in a string: the value, in base 10, of its first maximal run of
  digits (\<open>first_integer_run\<close> and \<open>first_integer_None\<close> below).
\<close>

definition first_integer :: "jsstring \<Rightarrow> nat option" where
  "first_integer s =
     (case dropWhile (\<lambda>c. \<not> is_digit c) s of
        [] \<Rightarrow> None
      | d # ds \<Rightarrow> Some (decimal_value (takeWhile is_digit (d # ds))))"

text \<open>
  \<open>ceil(W * 0.7)\<close> over the integers (\<open>ceil_7_10_is_ceiling\<close> below).
\<close>

definition ceil_7_10 :: "nat \<Rightarrow> nat" where
  "ceil_7_10 W = (7 * W + 9) div 10"

text \<open>
  The decimal numeral of a natural number: a non-empty string of digits, without a leading
  zero unless it is \<open>0\<close> itself, whose value in base 10 is the number. There is exactly one
  (\<open>decimal_is_numeral\<close> and \<open>decimal_numeral_unique\<close> below).
\<close>

definition decimal_numeral :: "jsstring \<Rightarrow> nat \<Rightarrow> bool" where
  "decimal_numeral ds n \<longleftrightarrow>
     ds \<noteq> [] \<and> list_all is_digit ds \<and> (hd ds = 0x30 \<longrightarrow> ds = [0x30]) \<and> decimal_value ds = n"

text \<open>
  A valid PlanRequest: the body carries the four fields, none of them empty.
\<close>

definition valid_request :: "body \<Rightarrow> jsstring \<Rightarrow> jsstring \<Rightarrow> jsstring \<Rightarrow> jsstring \<Rightarrow> bool" where
  "valid_request b subject level duration goals \<longleftrightarrow>
     b ''subject'' = Some subject \<and> subject \<noteq> [] \<and> b ''level'' = Some level \<and> level \<noteq> [] \<and>
     b ''duration'' = Some duration \<and> duration \<noteq> [] \<and> b ''goals'' = Some goals \<and> goals \<noteq> []"

text \<open>
  The outcome of one GenerationAttempt: \<open>Failed\<close> when the call raises or returns no text,
  \<open>Rejected\<close> when the text, after echo-stripping, is shorter than 100, \<open>Success\<close> with the
  stripped text otherwise.
\<close>

datatype attempt = Success jsstring | Rejected | Failed

definition attempt_of :: "services \<Rightarrow> jsstring \<Rightarrow> jsstring \<Rightarrow> attempt" where
  "attempt_of sv prompt model =
     (case textGeneration sv model prompt of
        Rejects message \<Rightarrow> Failed
      | Resolves None \<Rightarrow> Failed
      | Resolves (Some generated_text) \<Rightarrow>
          if length (strip_echo generated_text prompt) < 100 then Rejected
          else Success (strip_echo generated_text prompt))"

text \<open>The models called and the documents written by a request, read off its effects.\<close>

fun provider_calls :: "effect list \<Rightarrow> jsstring list" where
  "provider_calls [] = []"
| "provider_calls (TextGeneration model inputs # es) = model # provider_calls es"
| "provider_calls (StoreAdd doc # es) = provider_calls es"

fun store_writes :: "effect list \<Rightarrow> object list" where
  "store_writes [] = []"
| "store_writes (TextGeneration model inputs # es) = store_writes es"
| "store_writes (StoreAdd doc # es) = doc # store_writes es"

text \<open>
  Example inputs: the request of the end-to-end scenario; services whose every model
  call fails, once with a working store and once with a store that is down; and services
  where the first model fails, the second answers too briefly and the third echoes the
  prompt before its plan, with a store that is down.
\<close>

definition example_body :: body where
  "example_body =
     [''subject'' \<mapsto> lit ''Biology'', ''level'' \<mapsto> lit ''Beginner'',
      ''duration'' \<mapsto> lit ''4 weeks'', ''goals'' \<mapsto> lit ''Pass exam'']"

definition example_prompt :: jsstring where
  "example_prompt =
     build_prompt (lit ''Biology'') (lit ''Beginner'') (lit ''4 weeks'') (lit ''Pass exam'')"

definition example_answer :: jsstring where
  "example_answer = lit ''Here is your plan: '' @ replicate 100 0x61"

definition outage :: services where
  "outage =
     \<lparr>textGeneration = (\<lambda>model inputs. Rejects (lit ''Service Unavailable'')),
      add = (\<lambda>doc. Added (lit ''plan-1''))\<rparr>"

definition blackout :: services where
  "blackout =
     \<lparr>textGeneration = (\<lambda>model inputs. Rejects (lit ''Service Unavailable'')),
      add = (\<lambda>doc. AddFails)\<rparr>"

definition third_answers :: services where
  "third_answers =
     \<lparr>textGeneration = (\<lambda>model inputs.
        if model = lit ''google/flan-t5-large''
        then Resolves (Some (inputs @ lit ''\<newline>\<newline>'' @ example_answer @ lit '' ''))
        else if model = lit ''microsoft/DialoGPT-medium'' then Resolves (Some (lit ''Hello''))
        else Rejects (lit ''Service Unavailable'')),
      add = (\<lambda>doc. AddFails)\<rparr>"


section \<open>Strings\<close>

lemma str_includes_sublist: "str_includes s pat \<longleftrightarrow> sublist pat s"
  by (induction s) (auto simp: sublist_Cons_right)

lemma replace_leftmost:
  "sublist pat s \<Longrightarrow>
     \<exists>pre post. s = pre @ pat @ post \<and> replace s pat rep = pre @ rep @ post \<and>
       (\<forall>pre' post'. s = pre' @ pat @ post' \<longrightarrow> length pre \<le> length pre')"
proof (induction s)
  case Nil
  then show ?case by simp
next
  case (Cons c cs)
  show ?case
  proof (cases "prefix pat (c # cs)")
    case True
    then obtain post where post: "c # cs = pat @ post"
      by (auto simp: prefix_def)
    have "replace (c # cs) pat rep = rep @ drop (length pat) (c # cs)"
      using True by simp
    also have "drop (length pat) (c # cs) = post"
      unfolding post by simp
    finally have "replace (c # cs) pat rep = [] @ rep @ post" by simp
    with post show ?thesis
      by (metis append_Nil le0 list.size(3))
  next
    case False
    with Cons.prems have "sublist pat cs"
      by (simp add: sublist_Cons_right)
    from Cons.IH [OF this] obtain pre post where
      s: "cs = pre @ pat @ post" and r: "replace cs pat rep = pre @ rep @ post" and
      m: "\<forall>pre' post'. cs = pre' @ pat @ post' \<longrightarrow> length pre \<le> length pre'"
      by blast
    have "\<forall>pre' post'. c # cs = pre' @ pat @ post' \<longrightarrow> length (c # pre) \<le> length pre'"
    proof (intro allI impI)
      fix pre' post'
      assume eq: "c # cs = pre' @ pat @ post'"
      show "length (c # pre) \<le> length pre'"
      proof (cases pre')
        case Nil
        with eq have "prefix pat (c # cs)" by (simp add: prefix_def)
        with False show ?thesis by simp
      next
        case (Cons a pre'')
        with eq have "cs = pre'' @ pat @ post'" by simp
        with m have "length pre \<le> length pre''" by blast
        with Cons show ?thesis by simp
      qed
    qed
    moreover have "c # cs = (c # pre) @ pat @ post" using s by simp
    moreover have "replace (c # cs) pat rep = (c # pre) @ rep @ post"
      using False r by simp
    ultimately show ?thesis by blast
  qed
qed

lemma replace_prefix: "replace (pat @ rest) pat [] = rest"
proof (cases "pat @ rest")
  case Nil
  then show ?thesis by simp
next
  case (Cons a list)
  have "prefix pat (a # list)" unfolding Cons [symmetric] by simp
  moreover have "drop (length pat) (a # list) = rest" unfolding Cons [symmetric] by simp
  ultimately have "replace (a # list) pat [] = rest" by simp
  with Cons show ?thesis by simp
qed

lemma trim_no_outer_ws:
  assumes "trim s \<noteq> []"
  shows "\<not> is_ws (hd (trim s)) \<and> \<not> is_ws (last (trim s))"
proof -
  let ?u = "dropWhile is_ws s"
  let ?v = "dropWhile is_ws (rev ?u)"
  from assms have v: "?v \<noteq> []" by (simp add: trim_def)
  then have "rev ?u \<noteq> []" by (metis dropWhile.simps(1))
  then have u: "?u \<noteq> []" by simp
  have "last (trim s) = hd ?v" by (simp only: trim_def last_rev)
  moreover have "\<not> is_ws (hd ?v)" using v by (rule hd_dropWhile)
  moreover have "hd (trim s) = last ?v" by (simp only: trim_def hd_rev)
  moreover have "last ?v = last (rev ?u)"
    using v by (metis takeWhile_dropWhile_id last_appendR)
  moreover have "last (rev ?u) = hd ?u" by (simp only: last_rev)
  moreover have "\<not> is_ws (hd ?u)" using u by (rule hd_dropWhile)
  ultimately show ?thesis by simp
qed

lemma trim_strip:
  assumes "\<forall>c\<in>set a. is_ws c" and "\<forall>c\<in>set b. is_ws c"
      and "s \<noteq> []" and "\<not> is_ws (hd s)" and "\<not> is_ws (last s)"
  shows "trim (a @ s @ b) = s"
proof -
  from assms(3,4) have front: "dropWhile is_ws s = s" by (cases s) simp_all
  from assms(3,5) have rear: "dropWhile is_ws (rev s) = rev s"
    by (cases "rev s") (simp_all add: last_rev [symmetric] del: last_rev)
  have "dropWhile is_ws (a @ s @ b) = s @ b"
    using assms(1,3,4) by (cases s) (simp_all add: dropWhile_append)
  moreover have "dropWhile is_ws (rev b @ rev s) = rev s"
    using assms(2) rear by (simp add: dropWhile_append)
  ultimately show ?thesis by (simp add: trim_def)
qed

lemma length_lit: "length (lit s) = length s"
  by (simp add: lit_def)


section \<open>Rounding\<close>

lemma bitlength_le: "n < 2 ^ k \<Longrightarrow> bitlength n \<le> k"
proof (induction k arbitrary: n)
  case 0
  then show ?case by (simp add: bitlength.simps)
next
  case (Suc k)
  show ?case
  proof (cases "n = 0")
    case True
    then show ?thesis by (simp add: bitlength.simps)
  next
    case False
    from Suc.prems have "n div 2 < 2 ^ k" by simp
    then have "bitlength (n div 2) \<le> k" by (rule Suc.IH)
    with False show ?thesis by (subst bitlength.simps) simp
  qed
qed

lemma bitlength_ge: "0 < n \<Longrightarrow> 2 ^ (bitlength n - 1) \<le> n"
proof (induction n rule: bitlength.induct)
  case (1 n)
  show ?case
  proof (cases "n div 2 = 0")
    case True
    with "1.prems" have "n = 1" by presburger
    then show ?thesis by (simp add: bitlength.simps)
  next
    case False
    with "1.IH" "1.prems" have ih: "2 ^ (bitlength (n div 2) - 1) \<le> n div 2" by simp
    from False have "0 < bitlength (n div 2)" by (subst bitlength.simps) simp
    then have "(2::nat) ^ bitlength (n div 2) = 2 * 2 ^ (bitlength (n div 2) - 1)"
      by (cases "bitlength (n div 2)") simp_all
    with ih have "2 ^ bitlength (n div 2) \<le> n" by linarith
    moreover have "bitlength n = Suc (bitlength (n div 2))"
      using "1.prems" by (subst bitlength.simps) simp
    ultimately show ?thesis by simp
  qed
qed

lemma round53_exact: "n < 2 ^ 53 \<Longrightarrow> round53 n = n"
  using bitlength_le [of n 53] by (simp add: round53_def)

lemma round53_pos: "0 < n \<Longrightarrow> 0 < round53 n"
proof -
  assume n: "0 < n"
  let ?e = "bitlength n - 53"
  have "(2::nat) ^ ?e \<le> 2 ^ (bitlength n - 1)" by (rule power_increasing) simp_all
  with bitlength_ge [OF n] have "2 ^ ?e \<le> n" by linarith
  then have "0 < n div 2 ^ ?e" by (simp add: div_greater_zero_iff)
  then show ?thesis by (simp add: round53_def Let_def)
qed

lemma round53_bounds:
  assumes "bitlength p - 53 = e"
  shows "\<exists>q. (round53 p = q * 2 ^ e \<or> round53 p = q * 2 ^ e + 2 ^ e) \<and> q * 2 ^ e \<le> p \<and> p < q * 2 ^ e + 2 ^ e"
proof -
  let ?q = "p div 2 ^ e"
  have "?q * 2 ^ e \<le> p" by simp
  moreover have "p < ?q * 2 ^ e + 2 ^ e"
  proof -
    have "(0::nat) < 2 ^ e" by simp
    then have "p mod 2 ^ e < 2 ^ e" by (rule mod_less_divisor)
    with div_mult_mod_eq [of p "2 ^ e"] show ?thesis by linarith
  qed
  moreover have "round53 p = ?q * 2 ^ e \<or> round53 p = ?q * 2 ^ e + 2 ^ e"
    using assms by (simp add: round53_def Let_def algebra_simps)
  ultimately show ?thesis by blast
qed

lemma to_Number_exact: "n < 2 ^ 53 \<Longrightarrow> to_Number n = Fin n"
proof -
  assume n: "n < 2 ^ 53"
  have "(2::nat) ^ 53 \<le> 2 ^ 1024" by (rule power_increasing) simp_all
  with n have "\<not> 2 ^ 1024 \<le> n" by linarith
  with n show ?thesis by (simp add: to_Number_def round53_exact)
qed

lemma to_Number_truthy: "0 < n \<Longrightarrow> or_4 (to_Number n) = to_Number n"
  using round53_pos [of n] by (simp add: or_4_def to_Number_def Let_def)

text \<open>
  The significand of the double nearest to 0.7: \<open>0.7 * 2^53\<close> lies 0.4 above it. Below
  \<open>2^48\<close> weeks the floating-point product does not disturb the ceiling, since rounding
  moves the product by less than a tenth.
\<close>

lemma double_0_7:
  "10 * 6305039478318694 + 4 = 7 * (2::nat) ^ 53 \<and> (2::nat) ^ 52 \<le> 6305039478318694 \<and>
   6305039478318694 < (2::nat) ^ 53"
  by simp

lemma ceil_times_0_7_small:
  assumes n: "n < 2 ^ 48"
  shows "ceil_times_0_7 (Fin n) = Fin ((7 * n + 9) div 10)"
proof (cases "n = 0")
  case True
  then show ?thesis by (simp add: round53_def bitlength.simps)
next
  case False
  define p where "p = n * 6305039478318694"
  define e where "e = bitlength p - 53"
  define X :: nat where "X = 2 ^ e"
  define Y :: nat where "Y = 2 ^ (53 - e)"
  define N where "N = (7 * n + 9) div 10"
  have n': "n < 281474976710656" using n by simp
  have "p < 2 ^ 48 * 2 ^ 53" using n' by (simp add: p_def)
  then have "p < 2 ^ 101" by simp
  then have "bitlength p \<le> 101" by (rule bitlength_le)
  then have e: "e \<le> 48" by (simp add: e_def)
  have X: "X \<le> 2 * n"
  proof (cases "e = 0")
    case True
    with False show ?thesis by (simp add: X_def)
  next
    case e0: False
    from False have "0 < p" by (simp add: p_def)
    then have "2 ^ (bitlength p - 1) \<le> p" by (rule bitlength_ge)
    moreover from e0 have "bitlength p - 1 = e + 52" by (simp add: e_def)
    ultimately have "X * 2 ^ 52 \<le> p" by (simp add: X_def power_add)
    then have "X * 4503599627370496 \<le> n * 6305039478318694" by (simp add: p_def)
    then show ?thesis by linarith
  qed
  have "X * Y = 2 ^ (e + (53 - e))" by (simp add: X_def Y_def power_add)
  also have "e + (53 - e) = 53" using e by simp
  finally have XY: "X * Y = 9007199254740992" by simp
  from round53_bounds [of p e] obtain q where
    v: "round53 p = q * X \<or> round53 p = q * X + X" and lo: "q * X \<le> p" and hi: "p < q * X + X"
    by (auto simp: e_def X_def)
  have N: "10 * N \<le> 7 * n + 9" "7 * n < 10 * N + 1" "1 \<le> N"
    using False by (simp_all add: N_def)
  have upper: "q * X + X \<le> N * 9007199254740992"
  proof -
    have "(N * Y) * X = N * (X * Y)" by (simp add: mult_ac)
    then have NP: "(N * Y) * X = N * 9007199254740992" by (simp only: XY)
    have "p < N * 9007199254740992" using N by (simp add: p_def)
    with lo have "q * X < (N * Y) * X" unfolding NP by linarith
    then have "q < N * Y" by simp
    then have "Suc q * X \<le> (N * Y) * X" by (intro mult_le_mono1) simp
    then show ?thesis unfolding NP by simp
  qed
  have lower: "(N - 1) * 9007199254740992 < q * X"
    using N hi X n' by (simp add: p_def algebra_simps)
  let ?v = "round53 p"
  have "N * 9007199254740992 \<le> ?v + 9007199254740991" using v lower N by auto
  moreover have "?v + 9007199254740991 < 9007199254740992 * Suc N" using v upper by auto
  ultimately have "(?v + 9007199254740991) div 9007199254740992 = N"
    by (intro div_nat_eqI) (simp_all add: mult.commute)
  then show ?thesis by (simp add: p_def N_def)
qed

lemma ceil_7_10_is_ceiling: "7 * W \<le> 10 * ceil_7_10 W \<and> 10 * ceil_7_10 W < 7 * W + 10"
  by (simp add: ceil_7_10_def) presburger

lemma small_weeks_arith:
  assumes "0 < n" "n < 2 ^ 48"
  shows "Number_toString (ceil_times_0_7 (Fin n)) = decimal (ceil_7_10 n)"
    and "Number_toString (plus_1 (ceil_times_0_7 (Fin n))) = decimal (ceil_7_10 n + 1)"
    and "Number_toString (minus_1 (Fin n)) = decimal (n - 1)"
proof -
  from assms have n: "n < 281474976710656" by simp
  then have c: "ceil_7_10 n < 281474976710656" by (simp add: ceil_7_10_def)
  have c53: "ceil_7_10 n < 2 ^ 53" "ceil_7_10 n + 1 < 2 ^ 53" "n - 1 < 2 ^ 53"
    using c n by simp_all
  have ct: "ceil_times_0_7 (Fin n) = Fin (ceil_7_10 n)"
    using ceil_times_0_7_small [OF assms(2)] by (simp only: ceil_7_10_def)
  show "Number_toString (ceil_times_0_7 (Fin n)) = decimal (ceil_7_10 n)"
    unfolding ct using c53(1) by (simp add: Number_toString_def)
  show "Number_toString (plus_1 (ceil_times_0_7 (Fin n))) = decimal (ceil_7_10 n + 1)"
    unfolding ct plus_1.simps to_Number_exact [OF c53(2)]
    using c53(2) by (simp add: Number_toString_def)
  show "Number_toString (minus_1 (Fin n)) = decimal (n - 1)"
    unfolding minus_1.simps to_Number_exact [OF c53(3)]
    using c53(3) by (simp add: Number_toString_def)
qed


section \<open>Decimal numerals\<close>

lemma digit_char:
  assumes "d < 10"
  shows "is_digit (of_nat (48 + d))" and "unat (of_nat (48 + d) :: jschar) = 48 + d"
    and "(of_nat (48 + d) :: jschar) = 0x30 \<longleftrightarrow> d = 0"
proof -
  from assms have "d = 0 \<or> d = 1 \<or> d = 2 \<or> d = 3 \<or> d = 4 \<or> d = 5 \<or> d = 6 \<or> d = 7 \<or> d = 8 \<or> d = 9"
    by arith
  then show "is_digit (of_nat (48 + d))" and "unat (of_nat (48 + d) :: jschar) = 48 + d"
    and "(of_nat (48 + d) :: jschar) = 0x30 \<longleftrightarrow> d = 0"
    by (auto simp: is_digit_def)
qed

lemma decimal_nonempty: "decimal n \<noteq> []"
  by (subst decimal.simps) simp

lemma decimal_value_snoc: "decimal_value (ds @ [c]) = 10 * decimal_value ds + (unat c - 48)"
  by (simp add: decimal_value_def)

lemma decimal_digits: "list_all is_digit (decimal n)"
proof (induction n rule: decimal.induct)
  case (1 n)
  show ?case
  proof (cases "n < 10")
    case True
    then show ?thesis by (subst decimal.simps) (simp add: digit_char del: of_nat_add)
  next
    case False
    have "n mod 10 < 10" by simp
    with False "1.IH" show ?thesis
      by (subst decimal.simps) (simp add: digit_char del: of_nat_add)
  qed
qed

lemma decimal_value_decimal: "decimal_value (decimal n) = n"
proof (induction n rule: decimal.induct)
  case (1 n)
  show ?case
  proof (cases "n < 10")
    case True
    then show ?thesis
      by (subst decimal.simps) (simp add: decimal_value_def digit_char del: of_nat_add)
  next
    case False
    have "n mod 10 < 10" by simp
    with False "1.IH" show ?thesis
      by (subst decimal.simps) (simp add: decimal_value_snoc digit_char del: of_nat_add)
  qed
qed

lemma hd_decimal: "hd (decimal n) = 0x30 \<longleftrightarrow> n = 0"
proof (induction n rule: decimal.induct)
  case (1 n)
  show ?case
  proof (cases "n < 10")
    case True
    then show ?thesis by (subst decimal.simps) (simp add: digit_char del: of_nat_add)
  next
    case False
    then have "n div 10 \<noteq> 0" by simp
    with False "1.IH" have "hd (decimal (n div 10)) \<noteq> 0x30" by simp
    with False show ?thesis
      by (subst decimal.simps) (simp add: decimal_nonempty)
  qed
qed

lemma decimal_is_numeral: "decimal_numeral (decimal n) n"
proof -
  have "decimal 0 = [0x30]" by (subst decimal.simps) simp
  then show ?thesis
    using hd_decimal [of n]
    by (auto simp: decimal_numeral_def decimal_nonempty decimal_digits decimal_value_decimal)
qed

lemma decimal_numeral_unique: "decimal_numeral ds n \<Longrightarrow> ds = decimal n"
proof (induction ds arbitrary: n rule: rev_induct)
  case Nil
  then show ?case by (simp add: decimal_numeral_def)
next
  case (snoc c ds)
  from snoc.prems have c: "is_digit c" and all: "list_all is_digit ds"
    and n: "n = 10 * decimal_value ds + (unat c - 48)"
    and lead: "hd (ds @ [c]) = 0x30 \<longrightarrow> ds @ [c] = [0x30]"
    by (simp_all add: decimal_numeral_def decimal_value_snoc)
  from c have "48 \<le> unat c \<and> unat c \<le> 57"
    by (simp add: is_digit_def word_le_nat_alt)
  then have d: "unat c - 48 < 10" and u: "48 + (unat c - 48) = unat c" by arith+
  have cc: "of_nat (48 + (unat c - 48)) = c" unfolding u by simp
  show ?case
  proof (cases "ds = []")
    case True
    with n d cc show ?thesis
      by (subst decimal.simps) (simp add: decimal_value_def del: of_nat_add)
  next
    case False
    with lead have "hd ds \<noteq> 0x30" by auto
    with False all have num: "decimal_numeral ds (decimal_value ds)"
      by (simp add: decimal_numeral_def)
    then have ds: "ds = decimal (decimal_value ds)" by (rule snoc.IH)
    with \<open>hd ds \<noteq> 0x30\<close> hd_decimal [of "decimal_value ds"] have pos: "decimal_value ds \<noteq> 0"
      by auto
    with n have "\<not> n < 10" by simp
    moreover from n d have "n div 10 = decimal_value ds" "n mod 10 = unat c - 48" by simp_all
    ultimately have "decimal n = decimal (decimal_value ds) @ [of_nat (48 + (unat c - 48))]"
      by (subst decimal.simps) (simp del: of_nat_add)
    with ds cc show ?thesis by simp
  qed
qed


section \<open>The week count\<close>

lemma first_integer_run:
  assumes "first_integer s = Some n"
  shows "\<exists>pre run post. s = pre @ run @ post \<and> (\<forall>c\<in>set pre. \<not> is_digit c) \<and>
           run \<noteq> [] \<and> (\<forall>c\<in>set run. is_digit c) \<and> (post = [] \<or> \<not> is_digit (hd post)) \<and>
           n = decimal_value run"
proof -
  let ?pre = "takeWhile (\<lambda>c. \<not> is_digit c) s"
  let ?rest = "dropWhile (\<lambda>c. \<not> is_digit c) s"
  let ?run = "takeWhile is_digit ?rest"
  let ?post = "dropWhile is_digit ?rest"
  have rest: "?rest \<noteq> []" and n: "n = decimal_value ?run"
  proof -
    show "?rest \<noteq> []"
    proof
      assume "?rest = []"
      with assms show False
        unfolding first_integer_def by (simp only: list.case option.distinct)
    qed
    then obtain d ds where "?rest = d # ds" by (cases ?rest) blast+
    with assms show "n = decimal_value ?run"
      unfolding first_integer_def by (simp only: list.case option.inject)
  qed
  have "s = ?pre @ ?run @ ?post" by simp
  moreover have "\<forall>c\<in>set ?pre. \<not> is_digit c" by (auto dest: set_takeWhileD)
  moreover have "is_digit (hd ?rest)" using hd_dropWhile [OF rest] by simp
  then have "?run \<noteq> []" using rest by (cases ?rest) auto
  moreover have "\<forall>c\<in>set ?run. is_digit c" by (auto dest: set_takeWhileD)
  moreover have "?post = [] \<or> \<not> is_digit (hd ?post)" using hd_dropWhile by blast
  ultimately show ?thesis using n by blast
qed

lemma first_integer_None: "first_integer s = None \<longleftrightarrow> (\<forall>c\<in>set s. \<not> is_digit c)"
proof -
  have "first_integer s = None \<longleftrightarrow> dropWhile (\<lambda>c. \<not> is_digit c) s = []"
    by (cases "dropWhile (\<lambda>c. \<not> is_digit c) s")
      (simp_all add: first_integer_def del: dropWhile_eq_Nil_conv)
  then show ?thesis by (simp add: dropWhile_eq_Nil_conv)
qed

lemma parseInt_match:
  "parseInt (match_digits s) = (case first_integer s of None \<Rightarrow> NaN | Some n \<Rightarrow> to_Number n)"
proof (cases "dropWhile (\<lambda>c. \<not> is_digit c) s")
  case Nil
  then show ?thesis
    unfolding parseInt_def match_digits_def first_integer_def by (simp only: list.case option.case)
next
  case (Cons d ds)
  then show ?thesis
    unfolding parseInt_def match_digits_def first_integer_def by (simp only: list.case option.case)
qed

lemma to_Number_small_numeral [simp]: "to_Number 6 = Fin 6" "to_Number 1 = Fin 1" "to_Number 12 = Fin 12"
  by (simp_all add: to_Number_exact)

lemma durationWeeks_of_cases:
  "durationWeeks_of d =
     (case first_integer d of None \<Rightarrow> Fin 4 | Some n \<Rightarrow> if n = 0 then Fin 4 else to_Number n)"
proof (cases "first_integer d")
  case None
  then show ?thesis by (simp add: durationWeeks_of_def parseInt_match or_4_def)
next
  case (Some n)
  show ?thesis
  proof (cases "n = 0")
    case True
    with Some show ?thesis
      by (simp add: durationWeeks_of_def parseInt_match or_4_def to_Number_exact)
  next
    case False
    with Some show ?thesis
      by (simp add: durationWeeks_of_def parseInt_match to_Number_truthy)
  qed
qed

lemma durationWeeks_of_pos: "durationWeeks_of d \<noteq> Fin 0 \<and> durationWeeks_of d \<noteq> NaN"
proof (cases "first_integer d")
  case None
  then show ?thesis by (simp add: durationWeeks_of_cases)
next
  case (Some n)
  then show ?thesis
    using round53_pos [of n] by (simp add: durationWeeks_of_cases to_Number_def Let_def)
qed

lemma first_integer_examples:
  "first_integer (lit ''6 weeks'') = Some 6"
  "first_integer (lit ''1 week'') = Some 1"
  "first_integer (lit ''no number here'') = None"
  "first_integer (lit ''0 weeks'') = Some 0"
  "first_integer (lit ''4 weeks'') = Some 4"
  by (simp_all add: first_integer_def lit_def is_digit_def decimal_value_def)


section \<open>The template\<close>

lemma plan_header_starts:
  "\<exists>rest. plan_header subject level duration goals =
     (lit ''Study Plan for '' @ subject @ lit '' ('' @ level @ lit '' Level)'') @ rest"
  by (simp add: plan_header_def lit_def)

lemma phase_2_starts:
  "\<exists>rest. phase_2 W =
     (lit ''Phase 2: Core Learning (Week '' @
      (if gt W 2 then lit ''3-'' @ Number_toString (ceil_times_0_7 W) else lit ''2'') @
      lit '')'') @ rest"
  by (simp add: phase_2_def lit_def)

lemma phase_3_starts:
  "\<exists>rest. phase_3 W =
     (lit ''Phase 3: Advanced Application (Week '' @ Number_toString (plus_1 (ceil_times_0_7 W)) @
      lit ''-'' @ Number_toString (minus_1 W) @ lit '')'') @ rest"
  by (simp add: phase_3_def lit_def)


section \<open>The provider loop\<close>

lemma strip_echo_Nil: "strip_echo [] prompt = []"
  by (simp add: strip_echo_def trim_def)

lemma strip_echo_includes:
  assumes "sublist prompt generated_text"
  shows "\<exists>pre post. generated_text = pre @ prompt @ post \<and>
           (\<forall>pre' post'. generated_text = pre' @ prompt @ post' \<longrightarrow> length pre \<le> length pre') \<and>
           strip_echo generated_text prompt = trim (pre @ post)"
proof -
  from replace_leftmost [OF assms, of "[]"] obtain pre post where
    "generated_text = pre @ prompt @ post"
    "replace generated_text prompt [] = pre @ [] @ post"
    "\<forall>pre' post'. generated_text = pre' @ prompt @ post' \<longrightarrow> length pre \<le> length pre'"
    by blast
  moreover from assms have "strip_echo generated_text prompt = trim (replace generated_text prompt [])"
    by (simp add: strip_echo_def str_includes_sublist)
  ultimately show ?thesis by (metis append_Nil)
qed

lemma strip_echo_prefix: "strip_echo (prompt @ rest) prompt = trim rest"
  by (simp add: strip_echo_def str_includes_sublist replace_prefix)

lemma build_prompt_length: "100 \<le> length (build_prompt subject level duration goals)"
  by (simp add: build_prompt_def length_lit)

lemma strip_echo_short:
  assumes "length t < 100"
  shows "strip_echo t (build_prompt subject level duration goals) = t"
proof -
  have "\<not> sublist (build_prompt subject level duration goals) t"
  proof
    assume "sublist (build_prompt subject level duration goals) t"
    then have "length (build_prompt subject level duration goals) \<le> length t"
      by (rule sublist_length_le)
    with assms build_prompt_length [of subject level duration goals] show False by linarith
  qed
  then show ?thesis by (simp add: strip_echo_def str_includes_sublist)
qed

lemma try_models_accept:
  assumes "attempt_of sv prompt model = Success text"
  shows "try_models sv subject level duration goals prompt (model # rest) =
           performed (TextGeneration model prompt)
             (accept_branch sv subject level duration goals model text)"
proof (cases "textGeneration sv model prompt")
  case (Rejects message)
  with assms show ?thesis by (simp add: attempt_of_def)
next
  case (Resolves r)
  show ?thesis
  proof (cases r)
    case None
    with Resolves assms show ?thesis by (simp add: attempt_of_def)
  next
    case (Some generated_text)
    with Resolves assms have
      long: "\<not> length (strip_echo generated_text prompt) < 100" and
      tx: "text = strip_echo generated_text prompt"
      by (auto simp: attempt_of_def split: if_splits)
    from long have "generated_text \<noteq> []" by (auto simp: strip_echo_Nil)
    with Resolves Some long tx show ?thesis by (simp add: Let_def)
  qed
qed

lemma try_models_skip:
  assumes "attempt_of sv prompt model = Failed \<or> attempt_of sv prompt model = Rejected"
  shows "try_models sv subject level duration goals prompt (model # rest) =
           performed (TextGeneration model prompt)
             (try_models sv subject level duration goals prompt rest)"
proof (cases "textGeneration sv model prompt")
  case (Rejects message)
  then show ?thesis by simp
next
  case (Resolves r)
  show ?thesis
  proof (cases r)
    case None
    with Resolves show ?thesis by simp
  next
    case (Some generated_text)
    with Resolves assms have "length (strip_echo generated_text prompt) < 100"
      by (auto simp: attempt_of_def split: if_splits)
    with Resolves Some show ?thesis by (simp add: Let_def)
  qed
qed

lemma attempt_cases:
  "(\<forall>m\<in>set ms. attempt_of sv prompt m = Failed \<or> attempt_of sv prompt m = Rejected) \<or>
   (\<exists>k text. k < length ms \<and> attempt_of sv prompt (ms ! k) = Success text \<and>
      (\<forall>j<k. attempt_of sv prompt (ms ! j) = Failed \<or> attempt_of sv prompt (ms ! j) = Rejected))"
proof (induction ms)
  case Nil
  then show ?case by simp
next
  case (Cons m ms)
  show ?case
  proof (cases "attempt_of sv prompt m")
    case (Success t)
    then have "0 < length (m # ms) \<and> attempt_of sv prompt ((m # ms) ! 0) = Success t \<and>
      (\<forall>j<0. attempt_of sv prompt ((m # ms) ! j) = Failed \<or> attempt_of sv prompt ((m # ms) ! j) = Rejected)"
      by simp
    then show ?thesis by blast
  next
    case Rejected
    from Cons.IH show ?thesis
    proof
      assume "\<forall>m\<in>set ms. attempt_of sv prompt m = Failed \<or> attempt_of sv prompt m = Rejected"
      with Rejected show ?thesis by simp
    next
      assume "\<exists>k text. k < length ms \<and> attempt_of sv prompt (ms ! k) = Success text \<and>
        (\<forall>j<k. attempt_of sv prompt (ms ! j) = Failed \<or> attempt_of sv prompt (ms ! j) = Rejected)"
      then obtain k t where k: "k < length ms" "attempt_of sv prompt (ms ! k) = Success t"
        "\<forall>j<k. attempt_of sv prompt (ms ! j) = Failed \<or> attempt_of sv prompt (ms ! j) = Rejected"
        by blast
      have "\<forall>j<Suc k. attempt_of sv prompt ((m # ms) ! j) = Failed \<or>
          attempt_of sv prompt ((m # ms) ! j) = Rejected"
        using k(3) Rejected by (auto simp: less_Suc_eq_0_disj)
      with k(1,2) have "Suc k < length (m # ms) \<and>
          attempt_of sv prompt ((m # ms) ! Suc k) = Success t \<and>
          (\<forall>j<Suc k. attempt_of sv prompt ((m # ms) ! j) = Failed \<or>
             attempt_of sv prompt ((m # ms) ! j) = Rejected)"
        by simp
      then show ?thesis by blast
    qed
  next
    case Failed
    from Cons.IH show ?thesis
    proof
      assume "\<forall>m\<in>set ms. attempt_of sv prompt m = Failed \<or> attempt_of sv prompt m = Rejected"
      with Failed show ?thesis by simp
    next
      assume "\<exists>k text. k < length ms \<and> attempt_of sv prompt (ms ! k) = Success text \<and>
        (\<forall>j<k. attempt_of sv prompt (ms ! j) = Failed \<or> attempt_of sv prompt (ms ! j) = Rejected)"
      then obtain k t where k: "k < length ms" "attempt_of sv prompt (ms ! k) = Success t"
        "\<forall>j<k. attempt_of sv prompt (ms ! j) = Failed \<or> attempt_of sv prompt (ms ! j) = Rejected"
        by blast
      have "\<forall>j<Suc k. attempt_of sv prompt ((m # ms) ! j) = Failed \<or>
          attempt_of sv prompt ((m # ms) ! j) = Rejected"
        using k(3) Failed by (auto simp: less_Suc_eq_0_disj)
      with k(1,2) have "Suc k < length (m # ms) \<and>
          attempt_of sv prompt ((m # ms) ! Suc k) = Success t \<and>
          (\<forall>j<Suc k. attempt_of sv prompt ((m # ms) ! j) = Failed \<or>
             attempt_of sv prompt ((m # ms) ! j) = Rejected)"
        by simp
      then show ?thesis by blast
    qed
  qed
qed

lemma try_models_first_success:
  assumes "k < length ms"
      and "attempt_of sv prompt (ms ! k) = Success text"
      and "\<forall>j<k. attempt_of sv prompt (ms ! j) = Failed \<or> attempt_of sv prompt (ms ! j) = Rejected"
  shows "try_models sv subject level duration goals prompt ms =
           (fst (accept_branch sv subject level duration goals (ms ! k) text),
            map (\<lambda>m. TextGeneration m prompt) (take (Suc k) ms) @
            snd (accept_branch sv subject level duration goals (ms ! k) text))"
  using assms
proof (induction ms arbitrary: k)
  case Nil
  then show ?case by simp
next
  case (Cons m ms)
  show ?case
  proof (cases k)
    case 0
    with Cons.prems(2) have "attempt_of sv prompt m = Success text" by simp
    from try_models_accept [OF this] 0 show ?thesis by (simp add: performed_def)
  next
    case (Suc k')
    from Cons.prems(3) Suc have m: "attempt_of sv prompt m = Failed \<or> attempt_of sv prompt m = Rejected"
      by (metis nth_Cons_0 zero_less_Suc)
    have "\<forall>j<k'. attempt_of sv prompt (ms ! j) = Failed \<or> attempt_of sv prompt (ms ! j) = Rejected"
      using Cons.prems(3) Suc by (metis Suc_less_eq nth_Cons_Suc)
    with Cons.prems Suc have "try_models sv subject level duration goals prompt ms =
           (fst (accept_branch sv subject level duration goals (ms ! k') text),
            map (\<lambda>m. TextGeneration m prompt) (take (Suc k') ms) @
            snd (accept_branch sv subject level duration goals (ms ! k') text))"
      by (intro Cons.IH) simp_all
    with try_models_skip [OF m] Suc show ?thesis by (simp add: performed_def)
  qed
qed

lemma try_models_all_fail:
  assumes "\<forall>m\<in>set ms. attempt_of sv prompt m = Failed \<or> attempt_of sv prompt m = Rejected"
  shows "try_models sv subject level duration goals prompt ms =
           (fst (fallback_branch sv subject level duration goals),
            map (\<lambda>m. TextGeneration m prompt) ms @
            snd (fallback_branch sv subject level duration goals))"
  using assms
proof (induction ms)
  case Nil
  then show ?case by simp
next
  case (Cons m ms)
  then have m: "attempt_of sv prompt m = Failed \<or> attempt_of sv prompt m = Rejected" by simp
  from Cons have "try_models sv subject level duration goals prompt ms =
           (fst (fallback_branch sv subject level duration goals),
            map (\<lambda>m. TextGeneration m prompt) ms @
            snd (fallback_branch sv subject level duration goals))"
    by simp
  with try_models_skip [OF m] show ?case by (simp add: performed_def)
qed

lemma generate_plan_valid:
  assumes "valid_request b subject level duration goals"
  shows "generate_plan_with ms sv b =
           try_models sv subject level duration goals
             (build_prompt subject level duration goals) ms"
  using assms by (simp add: generate_plan_with_def valid_request_def falsy_def)

lemma provider_calls_append:
  "provider_calls (map (\<lambda>m. TextGeneration m prompt) xs @ es) = xs @ provider_calls es"
  by (induction xs) simp_all

lemma store_writes_append:
  "store_writes (map (\<lambda>m. TextGeneration m prompt) xs @ es) = store_writes es"
  by (induction xs) simp_all

lemma accept_branch_response:
  "status (fst (accept_branch sv subject level duration goals model text)) = 200 \<and>
   map_of (json (fst (accept_branch sv subject level duration goals model text))) ''success'' =
     Some (JBool True) \<and>
   map_of (json (fst (accept_branch sv subject level duration goals model text))) ''plan'' =
     Some (JString text) \<and>
   map_of (json (fst (accept_branch sv subject level duration goals model text))) ''modelUsed'' =
     Some (JString model) \<and>
   map_of (json (fst (accept_branch sv subject level duration goals model text))) ''isAiGenerated'' =
     Some (JBool True)"
  by (simp add: accept_branch_def performed_def Let_def split: add_outcome.splits)

lemma fallback_branch_response:
  "status (fst (fallback_branch sv subject level duration goals)) = 200 \<and>
   map_of (json (fst (fallback_branch sv subject level duration goals))) ''success'' =
     Some (JBool True) \<and>
   map_of (json (fst (fallback_branch sv subject level duration goals))) ''plan'' =
     Some (JString (generateFallbackPlan subject level duration goals)) \<and>
   map_of (json (fst (fallback_branch sv subject level duration goals))) ''modelUsed'' =
     Some (JString (lit ''fallback'')) \<and>
   map_of (json (fst (fallback_branch sv subject level duration goals))) ''isAiGenerated'' =
     Some (JBool False)"
  by (simp add: fallback_branch_def performed_def Let_def split: add_outcome.splits)

lemma accept_branch_effects:
  "\<exists>doc. snd (accept_branch sv subject level duration goals model text) = [StoreAdd doc] \<and>
     map_of doc ''plan'' = Some (JString text) \<and>
     map_of doc ''modelUsed'' = Some (JString model) \<and>
     map_of doc ''isAiGenerated'' = Some (JBool True) \<and>
     (add sv doc = AddFails \<longrightarrow>
        map_of (json (fst (accept_branch sv subject level duration goals model text))) ''planId'' = None \<and>
        map_of (json (fst (accept_branch sv subject level duration goals model text))) ''warning'' =
          Some (JString (lit ''Plan generated successfully but not saved to database'')))"
  by (simp add: accept_branch_def performed_def Let_def split: add_outcome.splits)

lemma fallback_branch_effects:
  "\<exists>doc. snd (fallback_branch sv subject level duration goals) = [StoreAdd doc] \<and>
     map_of doc ''plan'' = Some (JString (generateFallbackPlan subject level duration goals)) \<and>
     map_of doc ''modelUsed'' = Some (JString (lit ''fallback'')) \<and>
     map_of doc ''isAiGenerated'' = Some (JBool False) \<and>
     (add sv doc = AddFails \<longrightarrow>
        map_of (json (fst (fallback_branch sv subject level duration goals))) ''planId'' = None \<and>
        map_of (json (fst (fallback_branch sv subject level duration goals))) ''warning'' =
          Some (JString (lit ''Plan not saved to database due to connection issues'')))"
  by (simp add: fallback_branch_def performed_def Let_def split: add_outcome.splits)

lemma warnings_nonempty:
  "lit ''Plan generated successfully but not saved to database'' \<noteq> []"
  "lit ''Plan not saved to database due to connection issues'' \<noteq> []"
  by (simp_all add: lit_def)

lemma run_cases:
  fixes subject level duration goals :: jsstring
  defines "prompt \<equiv> build_prompt subject level duration goals"
  assumes valid: "valid_request b subject level duration goals"
  shows "generate_plan_with ms sv b =
           (fst (fallback_branch sv subject level duration goals),
            map (\<lambda>m. TextGeneration m prompt) ms @
            snd (fallback_branch sv subject level duration goals)) \<or>
         (\<exists>k t. k < length ms \<and> attempt_of sv prompt (ms ! k) = Success t \<and>
            generate_plan_with ms sv b =
              (fst (accept_branch sv subject level duration goals (ms ! k) t),
               map (\<lambda>m. TextGeneration m prompt) (take (Suc k) ms) @
               snd (accept_branch sv subject level duration goals (ms ! k) t)))"
  using attempt_cases [of ms sv prompt]
proof
  assume "\<forall>m\<in>set ms. attempt_of sv prompt m = Failed \<or> attempt_of sv prompt m = Rejected"
  then show ?thesis
    unfolding generate_plan_valid [OF valid] prompt_def by (intro disjI1 try_models_all_fail)
next
  assume "\<exists>k t. k < length ms \<and> attempt_of sv prompt (ms ! k) = Success t \<and>
      (\<forall>j<k. attempt_of sv prompt (ms ! j) = Failed \<or> attempt_of sv prompt (ms ! j) = Rejected)"
  then obtain k t where k: "k < length ms" "attempt_of sv prompt (ms ! k) = Success t"
      "\<forall>j<k. attempt_of sv prompt (ms ! j) = Failed \<or> attempt_of sv prompt (ms ! j) = Rejected"
    by blast
  from k have "try_models sv subject level duration goals prompt ms =
      (fst (accept_branch sv subject level duration goals (ms ! k) t),
       map (\<lambda>m. TextGeneration m prompt) (take (Suc k) ms) @
       snd (accept_branch sv subject level duration goals (ms ! k) t))"
    by (rule try_models_first_success)
  with k(1,2) show ?thesis
    unfolding generate_plan_valid [OF valid] prompt_def by blast
qed

lemma provider_calls_prefix: "prefix (provider_calls (snd (generate_plan_with ms sv b))) ms"
proof (cases "falsy (b ''subject'') \<or> falsy (b ''level'') \<or> falsy (b ''duration'') \<or> falsy (b ''goals'')")
  case True
  then show ?thesis by (simp add: generate_plan_with_def Let_def)
next
  case False
  then obtain subject level duration goals where
    valid: "valid_request b subject level duration goals"
    unfolding falsy_def valid_request_def by auto
  from run_cases [OF valid, of ms sv] show ?thesis
  proof
    assume run: "generate_plan_with ms sv b =
      (fst (fallback_branch sv subject level duration goals),
       map (\<lambda>m. TextGeneration m (build_prompt subject level duration goals)) ms @
       snd (fallback_branch sv subject level duration goals))"
    obtain doc where "snd (fallback_branch sv subject level duration goals) = [StoreAdd doc]"
      using fallback_branch_effects by blast
    then show ?thesis by (simp add: run provider_calls_append)
  next
    assume "\<exists>k t. k < length ms \<and>
      attempt_of sv (build_prompt subject level duration goals) (ms ! k) = Success t \<and>
      generate_plan_with ms sv b =
        (fst (accept_branch sv subject level duration goals (ms ! k) t),
         map (\<lambda>m. TextGeneration m (build_prompt subject level duration goals)) (take (Suc k) ms) @
         snd (accept_branch sv subject level duration goals (ms ! k) t))"
    then obtain k t where run: "generate_plan_with ms sv b =
        (fst (accept_branch sv subject level duration goals (ms ! k) t),
         map (\<lambda>m. TextGeneration m (build_prompt subject level duration goals)) (take (Suc k) ms) @
         snd (accept_branch sv subject level duration goals (ms ! k) t))"
      by blast
    obtain doc where "snd (accept_branch sv subject level duration goals (ms ! k) t) = [StoreAdd doc]"
      using accept_branch_effects by blast
    then show ?thesis by (simp add: run provider_calls_append take_is_prefix)
  qed
qed


section \<open>The example inputs\<close>

lemma models_nth:
  "models ! 0 = lit ''mistralai/Mistral-7B-Instruct-v0.3''"
  "models ! 1 = lit ''microsoft/DialoGPT-medium''"
  "models ! 2 = lit ''google/flan-t5-large''"
  "models ! 3 = lit ''facebook/blenderbot-400M-distill''"
  "models ! 4 = lit ''bigscience/bloom-560m''"
  "length models = 5"
  by (simp_all add: models_def)

lemma example_valid:
  "valid_request example_body (lit ''Biology'') (lit ''Beginner'') (lit ''4 weeks'') (lit ''Pass exam'')"
  by (simp add: valid_request_def example_body_def lit_def)

lemma example_answer_trim:
  "trim (lit ''\<newline>\<newline>'' @ example_answer @ lit '' '') = example_answer"
  by (rule trim_strip) (simp_all add: example_answer_def lit_def is_ws_def)

lemma example_answer_length: "length example_answer = 119"
  by (simp add: example_answer_def length_lit)

lemma third_answers_attempts:
  "attempt_of third_answers example_prompt (models ! 0) = Failed"
  "attempt_of third_answers example_prompt (models ! 1) = Rejected"
  "attempt_of third_answers example_prompt (models ! 2) = Success example_answer"
proof -
  show "attempt_of third_answers example_prompt (models ! 0) = Failed"
    by (simp add: attempt_of_def third_answers_def models_def lit_def)
  have "strip_echo (lit ''Hello'') example_prompt = lit ''Hello''"
    unfolding example_prompt_def by (rule strip_echo_short) (simp add: length_lit)
  moreover have "textGeneration third_answers (models ! 1) example_prompt = Resolves (Some (lit ''Hello''))"
    by (simp add: third_answers_def models_def lit_def)
  ultimately show "attempt_of third_answers example_prompt (models ! 1) = Rejected"
    by (simp add: attempt_of_def length_lit)
  have "textGeneration third_answers (models ! 2) example_prompt =
      Resolves (Some (example_prompt @ lit ''\<newline>\<newline>'' @ example_answer @ lit '' ''))"
    by (simp add: third_answers_def models_def)
  then show "attempt_of third_answers example_prompt (models ! 2) = Success example_answer"
    by (simp add: attempt_of_def strip_echo_prefix example_answer_trim example_answer_length)
qed

lemma third_answers_earlier:
  "\<forall>j<2. attempt_of third_answers
        (build_prompt (lit ''Biology'') (lit ''Beginner'') (lit ''4 weeks'') (lit ''Pass exam''))
        (models ! j) = Failed \<or>
      attempt_of third_answers
        (build_prompt (lit ''Biology'') (lit ''Beginner'') (lit ''4 weeks'') (lit ''Pass exam''))
        (models ! j) = Rejected"
  using third_answers_attempts(1,2)
  by (simp add: example_prompt_def numeral_2_eq_2 All_less_Suc)

lemma outage_attempts: "attempt_of outage prompt model = Failed"
  by (simp add: attempt_of_def outage_def)

lemma outage_run:
  "provider_calls (snd (generate_plan outage example_body)) = models"
proof -
  have "\<forall>m\<in>set models. attempt_of outage example_prompt m = Failed \<or>
      attempt_of outage example_prompt m = Rejected"
    by (simp add: outage_attempts)
  from try_models_all_fail [OF this] fallback_branch_effects
  show ?thesis
    unfolding generate_plan_def generate_plan_valid [OF example_valid] example_prompt_def
    by (metis provider_calls_append provider_calls.simps(1,3) snd_conv append_Nil2)
qed

lemma outage_success:
  "map_of (json (fst (generate_plan_with models outage example_body))) ''success'' = Some (JBool True)"
proof -
  have "\<forall>m\<in>set models. attempt_of outage example_prompt m = Failed \<or>
      attempt_of outage example_prompt m = Rejected"
    by (simp add: outage_attempts)
  from try_models_all_fail [OF this] fallback_branch_response
  show ?thesis
    unfolding generate_plan_valid [OF example_valid] example_prompt_def by (metis fst_conv)
qed

lemma blackout_attempts: "attempt_of blackout prompt model = Failed"
  by (simp add: attempt_of_def blackout_def)

lemma week_counts:
  "durationWeeks_of (lit ''4 weeks'') = Fin 4"
  "durationWeeks_of (lit ''100 weeks'') = Fin 100"
  "durationWeeks_of (lit ''844435597183613 weeks'') = Fin 844435597183613"
proof -
  have "first_integer (lit ''100 weeks'') = Some 100"
    "first_integer (lit ''844435597183613 weeks'') = Some 844435597183613"
    by (simp_all add: first_integer_def lit_def is_digit_def decimal_value_def)
  then show "durationWeeks_of (lit ''4 weeks'') = Fin 4"
    "durationWeeks_of (lit ''100 weeks'') = Fin 100"
    "durationWeeks_of (lit ''844435597183613 weeks'') = Fin 844435597183613"
    by (simp_all add: durationWeeks_of_cases first_integer_examples to_Number_exact)
qed

lemma decimal_examples:
  "decimal 3 = lit ''3''" "decimal 4 = lit ''4''" "decimal 70 = lit ''70''"
  "decimal 71 = lit ''71''" "decimal 99 = lit ''99''"
  "decimal 591104918028529 = lit ''591104918028529''"
  by (simp_all add: decimal.simps lit_def)

lemma ceil_times_0_7_large:
  "ceil_times_0_7 (Fin 844435597183613) = Fin 591104918028529"
proof -
  have "bitlength (844435597183613 * 6305039478318694) = 103"
    by (simp add: bitlength.simps)
  then show ?thesis by (simp add: round53_def Let_def)
qed

lemma sublist_at: "p = a @ b @ x @ r \<Longrightarrow> sublist x p"
  by (metis append_assoc sublist_appendI)

lemma sublist_at3: "p = a @ b @ c @ x @ r \<Longrightarrow> sublist x p"
  by (metis append_assoc sublist_appendI)


section \<open>The claims\<close>

text \<open>
  Claim C1. For a valid request and any list of models: when model \<open>k\<close> of the list is the
  first whose generated text, after echo-stripping, has length at least 100, the response
  names that model in \<open>modelUsed\<close>, has \<open>isAiGenerated\<close> true and carries that stripped text as
  its plan, and the models called are exactly the first \<open>k + 1\<close> of the list, so none after
  \<open>k\<close> is called. For every request the models called are an initial part of the list, in
  its order: each entry of the list is called at most once and none is retried.
\<close>

theorem first_acceptable_provider_wins:
  fixes ms :: "jsstring list" and sv :: services and b :: body
    and subject level duration goals :: jsstring
  defines "res \<equiv> fst (generate_plan_with ms sv b)"
      and "calls \<equiv> provider_calls (snd (generate_plan_with ms sv b))"
      and "prompt \<equiv> build_prompt subject level duration goals"
  shows "prefix calls ms \<and>
         (valid_request b subject level duration goals \<and> k < length ms \<and>
          attempt_of sv prompt (ms ! k) = Success accepted_text \<and>
          (\<forall>j<k. attempt_of sv prompt (ms ! j) = Failed \<or>
                  attempt_of sv prompt (ms ! j) = Rejected) \<longrightarrow>
          map_of (json res) ''modelUsed'' = Some (JString (ms ! k)) \<and>
          map_of (json res) ''isAiGenerated'' = Some (JBool True) \<and>
          map_of (json res) ''plan'' = Some (JString accepted_text) \<and>
          calls = take (Suc k) ms)"
proof -
  have "map_of (json res) ''modelUsed'' = Some (JString (ms ! k)) \<and>
      map_of (json res) ''isAiGenerated'' = Some (JBool True) \<and>
      map_of (json res) ''plan'' = Some (JString accepted_text) \<and>
      calls = take (Suc k) ms"
    if valid: "valid_request b subject level duration goals"
      and k: "k < length ms"
      and accepted: "attempt_of sv prompt (ms ! k) = Success accepted_text"
      and earlier: "\<forall>j<k. attempt_of sv prompt (ms ! j) = Failed \<or>
        attempt_of sv prompt (ms ! j) = Rejected"
  proof -
    have run: "generate_plan_with ms sv b =
        (fst (accept_branch sv subject level duration goals (ms ! k) accepted_text),
         map (\<lambda>m. TextGeneration m prompt) (take (Suc k) ms) @
         snd (accept_branch sv subject level duration goals (ms ! k) accepted_text))"
      unfolding generate_plan_valid [OF valid] prompt_def
      using k accepted earlier unfolding prompt_def by (rule try_models_first_success)
    obtain doc where
      "snd (accept_branch sv subject level duration goals (ms ! k) accepted_text) = [StoreAdd doc]"
      using accept_branch_effects by blast
    then have "calls = take (Suc k) ms"
      by (simp add: calls_def run provider_calls_append)
    then show ?thesis
      using accept_branch_response [of sv subject level duration goals "ms ! k" accepted_text]
      by (simp add: res_def run)
  qed
  moreover have "prefix calls ms" unfolding calls_def by (rule provider_calls_prefix)
  ultimately show ?thesis by blast
qed

theorem first_acceptable_provider_wins_witness:
  "valid_request example_body (lit ''Biology'') (lit ''Beginner'') (lit ''4 weeks'') (lit ''Pass exam'') \<and>
   attempt_of third_answers example_prompt (models ! 0) = Failed \<and>
   attempt_of third_answers example_prompt (models ! 1) = Rejected \<and>
   attempt_of third_answers example_prompt (models ! 2) = Success example_answer \<and>
   map_of (json (fst (generate_plan third_answers example_body))) ''modelUsed'' =
     Some (JString (lit ''google/flan-t5-large'')) \<and>
   map_of (json (fst (generate_plan third_answers example_body))) ''isAiGenerated'' =
     Some (JBool True) \<and>
   map_of (json (fst (generate_plan third_answers example_body))) ''plan'' =
     Some (JString example_answer) \<and>
   provider_calls (snd (generate_plan third_answers example_body)) =
     [lit ''mistralai/Mistral-7B-Instruct-v0.3'', lit ''microsoft/DialoGPT-medium'',
      lit ''google/flan-t5-large''] \<and>
   prefix (provider_calls (snd (generate_plan third_answers example_body))) models"
proof -
  have earlier: "\<forall>j<2. attempt_of third_answers
        (build_prompt (lit ''Biology'') (lit ''Beginner'') (lit ''4 weeks'') (lit ''Pass exam''))
        (models ! j) = Failed \<or>
      attempt_of third_answers
        (build_prompt (lit ''Biology'') (lit ''Beginner'') (lit ''4 weeks'') (lit ''Pass exam''))
        (models ! j) = Rejected"
    using third_answers_attempts(1,2)
    by (simp add: example_prompt_def numeral_2_eq_2 All_less_Suc)
  have k: "2 < length models" by (simp add: models_def)
  from first_acceptable_provider_wins [of models third_answers example_body
      "lit ''Biology''" "lit ''Beginner''" "lit ''4 weeks''" "lit ''Pass exam''" 2 example_answer]
    example_valid k third_answers_attempts(3) [unfolded example_prompt_def] earlier
  have "map_of (json (fst (generate_plan_with models third_answers example_body))) ''modelUsed'' =
      Some (JString (models ! 2)) \<and>
    map_of (json (fst (generate_plan_with models third_answers example_body))) ''isAiGenerated'' =
      Some (JBool True) \<and>
    map_of (json (fst (generate_plan_with models third_answers example_body))) ''plan'' =
      Some (JString example_answer) \<and>
    provider_calls (snd (generate_plan_with models third_answers example_body)) = take (Suc 2) models \<and>
    prefix (provider_calls (snd (generate_plan_with models third_answers example_body))) models"
    by blast
  then show ?thesis
    using example_valid third_answers_attempts
    by (simp add: generate_plan_def) (simp add: models_def)
qed

text \<open>
  Claim C2. For a valid request: when every model's attempt fails (the call raises, or
  returns no text) or is rejected (the stripped text is shorter than 100), the response has
  \<open>isAiGenerated\<close> false, \<open>modelUsed\<close> \<open>"fallback"\<close> and, as its plan, exactly the text of
  \<open>generateFallbackPlan\<close> for the four fields of the request.
\<close>

theorem all_providers_unusable_gives_fallback:
  fixes ms :: "jsstring list" and sv :: services and b :: body
    and subject level duration goals :: jsstring
  defines "res \<equiv> fst (generate_plan_with ms sv b)"
      and "prompt \<equiv> build_prompt subject level duration goals"
  assumes valid: "valid_request b subject level duration goals"
      and unusable: "\<forall>m\<in>set ms. attempt_of sv prompt m = Failed \<or> attempt_of sv prompt m = Rejected"
  shows "map_of (json res) ''isAiGenerated'' = Some (JBool False) \<and>
         map_of (json res) ''modelUsed'' = Some (JString (lit ''fallback'')) \<and>
         map_of (json res) ''plan'' =
           Some (JString (generateFallbackPlan subject level duration goals))"
proof -
  have "generate_plan_with ms sv b =
      (fst (fallback_branch sv subject level duration goals),
       map (\<lambda>m. TextGeneration m prompt) ms @ snd (fallback_branch sv subject level duration goals))"
    unfolding generate_plan_valid [OF valid] prompt_def
    using unusable unfolding prompt_def by (rule try_models_all_fail)
  then show ?thesis
    using fallback_branch_response [of sv subject level duration goals] by (simp add: res_def)
qed

theorem all_providers_unusable_gives_fallback_witness:
  "valid_request example_body (lit ''Biology'') (lit ''Beginner'') (lit ''4 weeks'') (lit ''Pass exam'') \<and>
   attempt_of outage example_prompt (models ! 0) = Failed \<and>
   attempt_of outage example_prompt (models ! 1) = Failed \<and>
   attempt_of outage example_prompt (models ! 2) = Failed \<and>
   attempt_of outage example_prompt (models ! 3) = Failed \<and>
   attempt_of outage example_prompt (models ! 4) = Failed \<and>
   length models = 5 \<and>
   map_of (json (fst (generate_plan outage example_body))) ''isAiGenerated'' = Some (JBool False) \<and>
   map_of (json (fst (generate_plan outage example_body))) ''modelUsed'' =
     Some (JString (lit ''fallback'')) \<and>
   map_of (json (fst (generate_plan outage example_body))) ''plan'' =
     Some (JString (generateFallbackPlan (lit ''Biology'') (lit ''Beginner'') (lit ''4 weeks'')
        (lit ''Pass exam'')))"
proof -
  have "\<forall>m\<in>set models.
      attempt_of outage
        (build_prompt (lit ''Biology'') (lit ''Beginner'') (lit ''4 weeks'') (lit ''Pass exam'')) m = Failed \<or>
      attempt_of outage
        (build_prompt (lit ''Biology'') (lit ''Beginner'') (lit ''4 weeks'') (lit ''Pass exam'')) m = Rejected"
    by (simp add: outage_attempts)
  from all_providers_unusable_gives_fallback [OF example_valid this]
  show ?thesis
    using example_valid by (simp add: generate_plan_def outage_attempts models_nth)
qed

text \<open>
  Claim C3. For a valid request the status is 200 whatever the models do, and an error
  raised by a model that was called makes the loop go on: the next model of the list, when
  there is one, is called as well.
\<close>

theorem provider_errors_are_absorbed:
  fixes ms :: "jsstring list" and sv :: services and b :: body
    and subject level duration goals :: jsstring
  defines "res \<equiv> fst (generate_plan_with ms sv b)"
      and "calls \<equiv> provider_calls (snd (generate_plan_with ms sv b))"
      and "prompt \<equiv> build_prompt subject level duration goals"
  assumes valid: "valid_request b subject level duration goals"
  shows "status res = 200 \<and>
         (\<forall>j message. j < length calls \<and> Suc j < length ms \<and>
              textGeneration sv (ms ! j) prompt = Rejects message \<longrightarrow>
              Suc j < length calls \<and> calls ! Suc j = ms ! Suc j)"
  using run_cases [OF valid, of ms sv]
proof
  assume run: "generate_plan_with ms sv b =
      (fst (fallback_branch sv subject level duration goals),
       map (\<lambda>m. TextGeneration m (build_prompt subject level duration goals)) ms @
       snd (fallback_branch sv subject level duration goals))"
  obtain doc where "snd (fallback_branch sv subject level duration goals) = [StoreAdd doc]"
    using fallback_branch_effects by blast
  then have "calls = ms" by (simp add: calls_def run provider_calls_append)
  then show ?thesis
    using fallback_branch_response [of sv subject level duration goals] by (simp add: res_def run)
next
  assume "\<exists>k t. k < length ms \<and>
      attempt_of sv (build_prompt subject level duration goals) (ms ! k) = Success t \<and>
      generate_plan_with ms sv b =
        (fst (accept_branch sv subject level duration goals (ms ! k) t),
         map (\<lambda>m. TextGeneration m (build_prompt subject level duration goals)) (take (Suc k) ms) @
         snd (accept_branch sv subject level duration goals (ms ! k) t))"
  then obtain k t where k: "k < length ms"
    and acc: "attempt_of sv prompt (ms ! k) = Success t"
    and run: "generate_plan_with ms sv b =
        (fst (accept_branch sv subject level duration goals (ms ! k) t),
         map (\<lambda>m. TextGeneration m prompt) (take (Suc k) ms) @
         snd (accept_branch sv subject level duration goals (ms ! k) t))"
    unfolding prompt_def by blast
  obtain doc where "snd (accept_branch sv subject level duration goals (ms ! k) t) = [StoreAdd doc]"
    using accept_branch_effects by blast
  then have calls: "calls = take (Suc k) ms" by (simp add: calls_def run provider_calls_append)
  have "Suc j < length calls \<and> calls ! Suc j = ms ! Suc j"
    if j: "j < length calls" "textGeneration sv (ms ! j) prompt = Rejects message" for j message
  proof -
    from j(2) have "attempt_of sv prompt (ms ! j) = Failed" by (simp add: attempt_of_def)
    with acc have "j \<noteq> k" by auto
    moreover from j(1) k have "j < Suc k" by (simp add: calls)
    ultimately have "Suc j < Suc k" by simp
    with k show ?thesis by (simp add: calls)
  qed
  then show ?thesis
    using accept_branch_response [of sv subject level duration goals "ms ! k" t]
    by (simp add: res_def run)
qed

theorem provider_errors_are_absorbed_witness:
  "valid_request example_body (lit ''Biology'') (lit ''Beginner'') (lit ''4 weeks'') (lit ''Pass exam'') \<and>
   textGeneration outage (models ! 0) example_prompt = Rejects (lit ''Service Unavailable'') \<and>
   status (fst (generate_plan outage example_body)) = 200 \<and>
   1 < length (provider_calls (snd (generate_plan outage example_body))) \<and>
   provider_calls (snd (generate_plan outage example_body)) ! 1 = lit ''microsoft/DialoGPT-medium''"
proof -
  have rej: "textGeneration outage (models ! 0)
      (build_prompt (lit ''Biology'') (lit ''Beginner'') (lit ''4 weeks'') (lit ''Pass exam'')) =
      Rejects (lit ''Service Unavailable'')"
    by (simp add: outage_def)
  have "0 < length (provider_calls (snd (generate_plan_with models outage example_body))) \<and>
      Suc 0 < length models"
    using outage_run by (simp add: generate_plan_def models_nth)
  with provider_errors_are_absorbed [OF example_valid, of models outage] rej
  have "status (fst (generate_plan_with models outage example_body)) = 200 \<and>
      Suc 0 < length (provider_calls (snd (generate_plan_with models outage example_body))) \<and>
      provider_calls (snd (generate_plan_with models outage example_body)) ! Suc 0 = models ! Suc 0"
    by blast
  then show ?thesis
    using example_valid by (simp add: generate_plan_def models_def outage_def)
qed

text \<open>
  Claim C4. When one of \<open>subject\<close>, \<open>level\<close>, \<open>duration\<close>, \<open>goals\<close> is missing from the body
  or is the empty string, the response is 400 with an \<open>error\<close> field, and the request has no
  effect: no model is called and nothing is written to the store.
\<close>

theorem missing_field_is_rejected:
  fixes ms :: "jsstring list" and sv :: services and b :: body
  defines "res \<equiv> fst (generate_plan_with ms sv b)"
      and "effects \<equiv> snd (generate_plan_with ms sv b)"
  assumes field: "f \<in> {''subject'', ''level'', ''duration'', ''goals''}"
      and absent: "b f = None \<or> b f = Some []"
  shows "status res = 400 \<and> (\<exists>e. map_of (json res) ''error'' = Some (JString e)) \<and>
         effects = [] \<and> provider_calls effects = [] \<and> store_writes effects = []"
proof -
  from field absent have
    "falsy (b ''subject'') \<or> falsy (b ''level'') \<or> falsy (b ''duration'') \<or> falsy (b ''goals'')"
    unfolding falsy_def by blast
  then show ?thesis
    by (simp add: res_def effects_def generate_plan_with_def Let_def)
qed

theorem missing_field_is_rejected_witness:
  "''level'' \<in> {''subject'', ''level'', ''duration'', ''goals''} \<and>
   (example_body(''level'' \<mapsto> [])) ''level'' = Some [] \<and>
   status (fst (generate_plan third_answers (example_body(''level'' \<mapsto> [])))) = 400 \<and>
   (\<exists>e. map_of (json (fst (generate_plan third_answers (example_body(''level'' \<mapsto> []))))) ''error'' =
      Some (JString e)) \<and>
   snd (generate_plan third_answers (example_body(''level'' \<mapsto> []))) = []"
  using missing_field_is_rejected [of "''level''" "example_body(''level'' \<mapsto> [])" models third_answers]
  by (simp add: generate_plan_def)

text \<open>
  Claim C5. For a valid request whose store write fails: the response is still 200 with
  \<open>success\<close> true, it has a non-empty \<open>warning\<close> and no \<open>planId\<close>. Exactly one write was
  attempted, it failed, and it carried the plan of the response. That plan is the generated
  plan: the text of \<open>generateFallbackPlan\<close> when every attempt failed or was rejected, and
  the stripped text of the first acceptable model otherwise.
\<close>

theorem store_failure_becomes_warning:
  fixes ms :: "jsstring list" and sv :: services and b :: body
    and subject level duration goals :: jsstring
  defines "res \<equiv> fst (generate_plan_with ms sv b)"
      and "writes \<equiv> store_writes (snd (generate_plan_with ms sv b))"
      and "prompt \<equiv> build_prompt subject level duration goals"
  assumes valid: "valid_request b subject level duration goals"
      and store_down: "\<forall>doc\<in>set writes. add sv doc = AddFails"
  shows "status res = 200 \<and> map_of (json res) ''success'' = Some (JBool True) \<and>
         (\<exists>w. map_of (json res) ''warning'' = Some (JString w) \<and> w \<noteq> []) \<and>
         map_of (json res) ''planId'' = None \<and>
         (\<exists>doc. writes = [doc] \<and> add sv doc = AddFails \<and>
            map_of doc ''plan'' = map_of (json res) ''plan'') \<and>
         ((\<forall>m\<in>set ms. attempt_of sv prompt m = Failed \<or> attempt_of sv prompt m = Rejected) \<longrightarrow>
            map_of (json res) ''plan'' =
              Some (JString (generateFallbackPlan subject level duration goals))) \<and>
         (\<forall>k accepted_text. k < length ms \<and>
            attempt_of sv prompt (ms ! k) = Success accepted_text \<and>
            (\<forall>j<k. attempt_of sv prompt (ms ! j) = Failed \<or>
                    attempt_of sv prompt (ms ! j) = Rejected) \<longrightarrow>
            map_of (json res) ''plan'' = Some (JString accepted_text))"
proof -
  have fallback: "map_of (json res) ''plan'' =
      Some (JString (generateFallbackPlan subject level duration goals))"
    if "\<forall>m\<in>set ms. attempt_of sv prompt m = Failed \<or> attempt_of sv prompt m = Rejected"
  proof -
    from that have "generate_plan_with ms sv b =
        (fst (fallback_branch sv subject level duration goals),
         map (\<lambda>m. TextGeneration m prompt) ms @
         snd (fallback_branch sv subject level duration goals))"
      unfolding generate_plan_valid [OF valid] prompt_def by (rule try_models_all_fail)
    then show ?thesis
      using fallback_branch_response [of sv subject level duration goals] by (simp add: res_def)
  qed
  have accepted: "map_of (json res) ''plan'' = Some (JString accepted_text)"
    if "k < length ms" "attempt_of sv prompt (ms ! k) = Success accepted_text"
      "\<forall>j<k. attempt_of sv prompt (ms ! j) = Failed \<or> attempt_of sv prompt (ms ! j) = Rejected"
    for k accepted_text
  proof -
    from that have "generate_plan_with ms sv b =
        (fst (accept_branch sv subject level duration goals (ms ! k) accepted_text),
         map (\<lambda>m. TextGeneration m prompt) (take (Suc k) ms) @
         snd (accept_branch sv subject level duration goals (ms ! k) accepted_text))"
      unfolding generate_plan_valid [OF valid] prompt_def by (rule try_models_first_success)
    then show ?thesis
      using accept_branch_response [of sv subject level duration goals "ms ! k" accepted_text]
      by (simp add: res_def)
  qed
  have "status res = 200 \<and> map_of (json res) ''success'' = Some (JBool True) \<and>
         (\<exists>w. map_of (json res) ''warning'' = Some (JString w) \<and> w \<noteq> []) \<and>
         map_of (json res) ''planId'' = None \<and>
         (\<exists>doc. writes = [doc] \<and> add sv doc = AddFails \<and>
            map_of doc ''plan'' = map_of (json res) ''plan'')"
    using run_cases [OF valid, of ms sv]
  proof
    assume run: "generate_plan_with ms sv b =
        (fst (fallback_branch sv subject level duration goals),
         map (\<lambda>m. TextGeneration m (build_prompt subject level duration goals)) ms @
         snd (fallback_branch sv subject level duration goals))"
    from fallback_branch_effects [of sv subject level duration goals] obtain doc where
      doc: "snd (fallback_branch sv subject level duration goals) = [StoreAdd doc]" and
      plan: "map_of doc ''plan'' = Some (JString (generateFallbackPlan subject level duration goals))" and
      fails: "add sv doc = AddFails \<longrightarrow>
          map_of (json (fst (fallback_branch sv subject level duration goals))) ''planId'' = None \<and>
          map_of (json (fst (fallback_branch sv subject level duration goals))) ''warning'' =
            Some (JString (lit ''Plan not saved to database due to connection issues''))"
      by blast
    from doc have w: "writes = [doc]" by (simp add: writes_def run store_writes_append)
    with store_down have "add sv doc = AddFails" by simp
    with fails w plan show ?thesis
      using fallback_branch_response [of sv subject level duration goals] warnings_nonempty
      by (simp add: res_def run)
  next
    assume "\<exists>k t. k < length ms \<and>
        attempt_of sv (build_prompt subject level duration goals) (ms ! k) = Success t \<and>
        generate_plan_with ms sv b =
          (fst (accept_branch sv subject level duration goals (ms ! k) t),
           map (\<lambda>m. TextGeneration m (build_prompt subject level duration goals)) (take (Suc k) ms) @
           snd (accept_branch sv subject level duration goals (ms ! k) t))"
    then obtain k t where run: "generate_plan_with ms sv b =
          (fst (accept_branch sv subject level duration goals (ms ! k) t),
           map (\<lambda>m. TextGeneration m (build_prompt subject level duration goals)) (take (Suc k) ms) @
           snd (accept_branch sv subject level duration goals (ms ! k) t))"
      by blast
    from accept_branch_effects [of sv subject level duration goals "ms ! k" t] obtain doc where
      doc: "snd (accept_branch sv subject level duration goals (ms ! k) t) = [StoreAdd doc]" and
      plan: "map_of doc ''plan'' = Some (JString t)" and
      fails: "add sv doc = AddFails \<longrightarrow>
          map_of (json (fst (accept_branch sv subject level duration goals (ms ! k) t))) ''planId'' = None \<and>
          map_of (json (fst (accept_branch sv subject level duration goals (ms ! k) t))) ''warning'' =
            Some (JString (lit ''Plan generated successfully but not saved to database''))"
      by blast
    from doc have w: "writes = [doc]" by (simp add: writes_def run store_writes_append)
    with store_down have "add sv doc = AddFails" by simp
    with fails w plan show ?thesis
      using accept_branch_response [of sv subject level duration goals "ms ! k" t] warnings_nonempty
      by (simp add: res_def run)
  qed
  with fallback accepted show ?thesis by blast
qed

theorem store_failure_becomes_warning_witness:
  "valid_request example_body (lit ''Biology'') (lit ''Beginner'') (lit ''4 weeks'') (lit ''Pass exam'') \<and>
   add third_answers [] = AddFails \<and>
   attempt_of third_answers example_prompt (models ! 0) = Failed \<and>
   attempt_of third_answers example_prompt (models ! 1) = Rejected \<and>
   attempt_of third_answers example_prompt (models ! 2) = Success example_answer \<and>
   status (fst (generate_plan third_answers example_body)) = 200 \<and>
   map_of (json (fst (generate_plan third_answers example_body))) ''success'' = Some (JBool True) \<and>
   map_of (json (fst (generate_plan third_answers example_body))) ''plan'' =
     Some (JString example_answer) \<and>
   (\<exists>w. map_of (json (fst (generate_plan third_answers example_body))) ''warning'' =
      Some (JString w) \<and> w \<noteq> []) \<and>
   map_of (json (fst (generate_plan third_answers example_body))) ''planId'' = None \<and>
   (\<exists>doc. store_writes (snd (generate_plan third_answers example_body)) = [doc] \<and>
      map_of doc ''plan'' = Some (JString example_answer)) \<and>
   add blackout [] = AddFails \<and>
   status (fst (generate_plan blackout example_body)) = 200 \<and>
   map_of (json (fst (generate_plan blackout example_body))) ''success'' = Some (JBool True) \<and>
   map_of (json (fst (generate_plan blackout example_body))) ''plan'' =
     Some (JString (generateFallbackPlan (lit ''Biology'') (lit ''Beginner'') (lit ''4 weeks'')
        (lit ''Pass exam''))) \<and>
   (\<exists>w. map_of (json (fst (generate_plan blackout example_body))) ''warning'' =
      Some (JString w) \<and> w \<noteq> []) \<and>
   map_of (json (fst (generate_plan blackout example_body))) ''planId'' = None \<and>
   (\<exists>doc. store_writes (snd (generate_plan blackout example_body)) = [doc] \<and>
      map_of doc ''plan'' =
        Some (JString (generateFallbackPlan (lit ''Biology'') (lit ''Beginner'') (lit ''4 weeks'')
          (lit ''Pass exam''))))"
proof -
  have k: "2 < length models" by (simp add: models_def)
  have down: "\<forall>doc\<in>set (store_writes (snd (generate_plan_with models third_answers example_body))).
      add third_answers doc = AddFails"
    by (simp add: third_answers_def)
  note accepted = store_failure_becomes_warning [OF example_valid down]
  from accepted k third_answers_attempts(3) [unfolded example_prompt_def] third_answers_earlier
  have plan: "map_of (json (fst (generate_plan_with models third_answers example_body))) ''plan'' =
      Some (JString example_answer)"
    by blast
  have down': "\<forall>doc\<in>set (store_writes (snd (generate_plan_with models blackout example_body))).
      add blackout doc = AddFails"
    by (simp add: blackout_def)
  note fallback = store_failure_becomes_warning [OF example_valid down']
  have "\<forall>m\<in>set models.
      attempt_of blackout
        (build_prompt (lit ''Biology'') (lit ''Beginner'') (lit ''4 weeks'') (lit ''Pass exam'')) m = Failed \<or>
      attempt_of blackout
        (build_prompt (lit ''Biology'') (lit ''Beginner'') (lit ''4 weeks'') (lit ''Pass exam'')) m = Rejected"
    by (simp add: blackout_attempts)
  with fallback
  have plan': "map_of (json (fst (generate_plan_with models blackout example_body))) ''plan'' =
      Some (JString (generateFallbackPlan (lit ''Biology'') (lit ''Beginner'') (lit ''4 weeks'')
        (lit ''Pass exam'')))"
    by blast
  note a1 = accepted [THEN conjunct1]
    and a2 = accepted [THEN conjunct2, THEN conjunct1]
    and a3 = accepted [THEN conjunct2, THEN conjunct2, THEN conjunct1]
    and a4 = accepted [THEN conjunct2, THEN conjunct2, THEN conjunct2, THEN conjunct1]
    and a5 = accepted [THEN conjunct2, THEN conjunct2, THEN conjunct2, THEN conjunct2, THEN conjunct1]
  note f1 = fallback [THEN conjunct1]
    and f2 = fallback [THEN conjunct2, THEN conjunct1]
    and f3 = fallback [THEN conjunct2, THEN conjunct2, THEN conjunct1]
    and f4 = fallback [THEN conjunct2, THEN conjunct2, THEN conjunct2, THEN conjunct1]
    and f5 = fallback [THEN conjunct2, THEN conjunct2, THEN conjunct2, THEN conjunct2, THEN conjunct1]
  from a5 plan have a5': "\<exists>doc. store_writes (snd (generate_plan_with models third_answers example_body)) = [doc] \<and>
      map_of doc ''plan'' = Some (JString example_answer)"
    by auto
  from f5 plan' have f5': "\<exists>doc. store_writes (snd (generate_plan_with models blackout example_body)) = [doc] \<and>
      map_of doc ''plan'' =
        Some (JString (generateFallbackPlan (lit ''Biology'') (lit ''Beginner'') (lit ''4 weeks'')
          (lit ''Pass exam'')))"
    by auto
  have "add third_answers [] = AddFails" "add blackout [] = AddFails"
    by (simp_all add: third_answers_def blackout_def)
  with a1 a2 a3 a4 a5' f1 f2 f3 f4 f5' plan plan' example_valid third_answers_attempts
  show ?thesis unfolding generate_plan_def by (intro conjI)
qed

text \<open>
  Claim C6, as amended. The week count is the first integer found in \<open>duration\<close> when that
  integer is positive (the integer itself below \<open>2^53\<close>, the nearest double above); the
  default 4 is taken when no integer is found and also when the integer found is 0, and in
  no other case. \<open>"6 weeks"\<close> gives 6, \<open>"1 week"\<close> gives 1 and \<open>"no number here"\<close> gives 4.
\<close>

theorem duration_weeks_parsing:
  "(first_integer d = None \<longrightarrow> durationWeeks_of d = Fin 4) \<and>
   (first_integer d = Some 0 \<longrightarrow> durationWeeks_of d = Fin 4) \<and>
   (\<forall>n. first_integer d = Some n \<and> 0 < n \<longrightarrow>
        durationWeeks_of d = to_Number n \<and> (n < 2 ^ 53 \<longrightarrow> durationWeeks_of d = Fin n)) \<and>
   durationWeeks_of (lit ''6 weeks'') = Fin 6 \<and>
   durationWeeks_of (lit ''1 week'') = Fin 1 \<and>
   durationWeeks_of (lit ''no number here'') = Fin 4"
  by (simp add: durationWeeks_of_cases first_integer_examples to_Number_exact)

theorem duration_weeks_parsing_witness:
  "first_integer (lit ''no number here'') = None \<and>
   durationWeeks_of (lit ''no number here'') = Fin 4 \<and>
   first_integer (lit ''0 weeks'') = Some 0 \<and>
   durationWeeks_of (lit ''0 weeks'') = Fin 4 \<and>
   first_integer (lit ''6 weeks'') = Some 6 \<and> (0::nat) < 6 \<and> (6::nat) < 2 ^ 53 \<and>
   durationWeeks_of (lit ''6 weeks'') = Fin 6"
  using duration_weeks_parsing [of "lit ''no number here''"]
    duration_weeks_parsing [of "lit ''0 weeks''"]
    duration_weeks_parsing [of "lit ''6 weeks''"]
  by (simp add: first_integer_examples)

text \<open>
  Claim C6 as it was stated lets the default apply only when no integer is found. In
  \<open>"0 weeks"\<close> an integer is found, and the week count is 4, not that integer.
\<close>

theorem duration_default_counterexample:
  "first_integer (lit ''0 weeks'') = Some 0 \<and>
   durationWeeks_of (lit ''0 weeks'') \<noteq> Fin 0 \<and>
   durationWeeks_of (lit ''0 weeks'') = Fin 4"
  by (simp add: durationWeeks_of_cases first_integer_examples)

text \<open>
  Claim C7. When the generated text of the accepted model contains the prompt, the
  accepted text, which is the plan of the response, is the generated text with the leftmost
  occurrence of the prompt cut out and the rest trimmed; when the generated text is the
  prompt followed by a rest, it is that rest, trimmed. It starts and ends with a code unit
  that is not whitespace.
\<close>

theorem echoed_prompt_is_stripped:
  fixes ms :: "jsstring list" and sv :: services and b :: body
    and subject level duration goals :: jsstring
  defines "res \<equiv> fst (generate_plan_with ms sv b)"
      and "prompt \<equiv> build_prompt subject level duration goals"
  assumes valid: "valid_request b subject level duration goals"
      and k: "k < length ms"
      and response: "textGeneration sv (ms ! k) prompt = Resolves (Some generated_text)"
      and echo: "sublist prompt generated_text"
      and accepted: "attempt_of sv prompt (ms ! k) = Success accepted_text"
      and earlier: "\<forall>j<k. attempt_of sv prompt (ms ! j) = Failed \<or> attempt_of sv prompt (ms ! j) = Rejected"
  shows "map_of (json res) ''plan'' = Some (JString accepted_text) \<and>
         (\<exists>pre post. generated_text = pre @ prompt @ post \<and>
            (\<forall>pre' post'. generated_text = pre' @ prompt @ post' \<longrightarrow> length pre \<le> length pre') \<and>
            accepted_text = trim (pre @ post)) \<and>
         (\<forall>rest. generated_text = prompt @ rest \<longrightarrow> accepted_text = trim rest) \<and>
         accepted_text \<noteq> [] \<and> \<not> is_ws (hd accepted_text) \<and> \<not> is_ws (last accepted_text)"
proof -
  have run: "generate_plan_with ms sv b =
      (fst (accept_branch sv subject level duration goals (ms ! k) accepted_text),
       map (\<lambda>m. TextGeneration m prompt) (take (Suc k) ms) @
       snd (accept_branch sv subject level duration goals (ms ! k) accepted_text))"
    unfolding generate_plan_valid [OF valid] prompt_def
    using k accepted earlier unfolding prompt_def by (rule try_models_first_success)
  from accepted response have
    at: "accepted_text = strip_echo generated_text prompt" and
    long: "100 \<le> length (strip_echo generated_text prompt)"
    by (auto simp: attempt_of_def split: if_splits)
  from echo have tr: "accepted_text = trim (replace generated_text prompt [])"
    by (simp add: at strip_echo_def str_includes_sublist)
  from long at have ne: "accepted_text \<noteq> []" by auto
  with tr have "trim (replace generated_text prompt []) \<noteq> []" by simp
  from trim_no_outer_ws [OF this] tr
  have ws: "\<not> is_ws (hd accepted_text) \<and> \<not> is_ws (last accepted_text)" by simp
  have "\<forall>rest. generated_text = prompt @ rest \<longrightarrow> accepted_text = trim rest"
    by (simp add: at strip_echo_prefix)
  moreover have "map_of (json res) ''plan'' = Some (JString accepted_text)"
    using accept_branch_response [of sv subject level duration goals "ms ! k" accepted_text]
    by (simp add: res_def run)
  ultimately show ?thesis
    using strip_echo_includes [OF echo] ne ws unfolding at by blast
qed

theorem echoed_prompt_is_stripped_witness:
  "valid_request example_body (lit ''Biology'') (lit ''Beginner'') (lit ''4 weeks'') (lit ''Pass exam'') \<and>
   textGeneration third_answers (models ! 2) example_prompt =
     Resolves (Some (example_prompt @ lit ''\<newline>\<newline>'' @ example_answer @ lit '' '')) \<and>
   sublist example_prompt (example_prompt @ lit ''\<newline>\<newline>'' @ example_answer @ lit '' '') \<and>
   attempt_of third_answers example_prompt (models ! 0) = Failed \<and>
   attempt_of third_answers example_prompt (models ! 1) = Rejected \<and>
   attempt_of third_answers example_prompt (models ! 2) = Success example_answer \<and>
   map_of (json (fst (generate_plan third_answers example_body))) ''plan'' =
     Some (JString example_answer) \<and>
   example_answer = trim (lit ''\<newline>\<newline>'' @ example_answer @ lit '' '') \<and>
   example_answer \<noteq> [] \<and> \<not> is_ws (hd example_answer) \<and> \<not> is_ws (last example_answer)"
proof -
  have k: "2 < length models" by (simp add: models_def)
  have response: "textGeneration third_answers (models ! 2) example_prompt =
      Resolves (Some (example_prompt @ lit ''\<newline>\<newline>'' @ example_answer @ lit '' ''))"
    by (simp add: third_answers_def models_def)
  have echo: "sublist example_prompt
      (example_prompt @ lit ''\<newline>\<newline>'' @ example_answer @ lit '' '')"
    by simp
  from echoed_prompt_is_stripped [OF example_valid k response [unfolded example_prompt_def]
      echo [unfolded example_prompt_def] third_answers_attempts(3) [unfolded example_prompt_def]
      third_answers_earlier]
  have "map_of (json (fst (generate_plan_with models third_answers example_body))) ''plan'' =
      Some (JString example_answer) \<and>
    example_answer = trim (lit ''\<newline>\<newline>'' @ example_answer @ lit '' '') \<and>
    example_answer \<noteq> [] \<and> \<not> is_ws (hd example_answer) \<and> \<not> is_ws (last example_answer)"
    by blast
  then show ?thesis
    using example_valid response echo third_answers_attempts by (simp add: generate_plan_def)
qed

text \<open>
  Claim C8, as amended. For all four arguments the text of \<open>generateFallbackPlan\<close> begins
  with \<open>Study Plan for {subject} ({level} Level)\<close>. When the week count \<open>W\<close> is below
  \<open>2^48\<close>: after the header and the section of Phase 1 comes the label of Phase 2, which is
  \<open>Week 3-\<close> followed by the decimal numeral of \<open>ceil(W * 0.7)\<close> when \<open>W > 2\<close> and \<open>Week 2\<close>
  otherwise; after the section of Phase 2 comes the label of Phase 3, with the decimal
  numerals of \<open>ceil(W * 0.7) + 1\<close> and of \<open>W - 1\<close> around a dash, whatever the range they
  make. For 4 weeks it is the inverted range \<open>4-3\<close>.
\<close>

theorem fallback_plan_layout:
  fixes subject level duration goals :: jsstring
  defines "plan \<equiv> generateFallbackPlan subject level duration goals"
      and "W \<equiv> durationWeeks_of duration"
  shows "prefix (lit ''Study Plan for '' @ subject @ lit '' ('' @ level @ lit '' Level)'') plan \<and>
         (\<forall>n. W = Fin n \<and> n < 2 ^ 48 \<longrightarrow>
            (\<exists>c rest. decimal_numeral c (ceil_7_10 n) \<and>
               plan = plan_header subject level duration goals @ phase_1 W @
                 lit ''Phase 2: Core Learning (Week '' @
                 (if 2 < n then lit ''3-'' @ c else lit ''2'') @ lit '')'' @ rest) \<and>
            (\<exists>c w rest. decimal_numeral c (ceil_7_10 n + 1) \<and> decimal_numeral w (n - 1) \<and>
               plan = plan_header subject level duration goals @ phase_1 W @ phase_2 W @
                 lit ''Phase 3: Advanced Application (Week '' @ c @ lit ''-'' @ w @ lit '')'' @ rest))"
proof -
  have plan: "plan = plan_header subject level duration goals @ phase_1 W @ phase_2 W @ phase_3 W @
      phase_4 @ daily_structure @ weekly_milestones W @ study_tips"
    by (simp add: plan_def W_def generateFallbackPlan_def plan_template_def Let_def)
  obtain r1 where r1: "plan_header subject level duration goals =
      (lit ''Study Plan for '' @ subject @ lit '' ('' @ level @ lit '' Level)'') @ r1"
    using plan_header_starts by blast
  have 1: "prefix (lit ''Study Plan for '' @ subject @ lit '' ('' @ level @ lit '' Level)'') plan"
    unfolding plan r1 by (simp only: append_assoc prefixI)
  have 2: "(\<exists>c rest. decimal_numeral c (ceil_7_10 n) \<and>
               plan = plan_header subject level duration goals @ phase_1 W @
                 lit ''Phase 2: Core Learning (Week '' @
                 (if 2 < n then lit ''3-'' @ c else lit ''2'') @ lit '')'' @ rest) \<and>
            (\<exists>c w rest. decimal_numeral c (ceil_7_10 n + 1) \<and> decimal_numeral w (n - 1) \<and>
               plan = plan_header subject level duration goals @ phase_1 W @ phase_2 W @
                 lit ''Phase 3: Advanced Application (Week '' @ c @ lit ''-'' @ w @ lit '')'' @ rest)"
    if W: "W = Fin n" and n: "n < 2 ^ 48" for n
  proof -
    from W durationWeeks_of_pos [of duration] have "0 < n" by (simp add: W_def)
    note ar = small_weeks_arith [OF this n]
    obtain r2 where "phase_2 W =
        (lit ''Phase 2: Core Learning (Week '' @
         (if gt W 2 then lit ''3-'' @ Number_toString (ceil_times_0_7 W) else lit ''2'') @
         lit '')'') @ r2"
      using phase_2_starts by blast
    then have r2: "phase_2 W = lit ''Phase 2: Core Learning (Week '' @
        (if 2 < n then lit ''3-'' @ decimal (ceil_7_10 n) else lit ''2'') @ lit '')'' @ r2"
      unfolding W ar by simp
    obtain r3 where "phase_3 W =
        (lit ''Phase 3: Advanced Application (Week '' @
         Number_toString (plus_1 (ceil_times_0_7 W)) @ lit ''-'' @
         Number_toString (minus_1 W) @ lit '')'') @ r3"
      using phase_3_starts by blast
    then have r3: "phase_3 W = lit ''Phase 3: Advanced Application (Week '' @
        decimal (ceil_7_10 n + 1) @ lit ''-'' @ decimal (n - 1) @ lit '')'' @ r3"
      unfolding W ar by simp
    have "plan = plan_header subject level duration goals @ phase_1 W @
        lit ''Phase 2: Core Learning (Week '' @
        (if 2 < n then lit ''3-'' @ decimal (ceil_7_10 n) else lit ''2'') @ lit '')'' @
        (r2 @ phase_3 W @ phase_4 @ daily_structure @ weekly_milestones W @ study_tips)"
      unfolding plan by (subst r2) (simp only: append_assoc)
    moreover have "plan = plan_header subject level duration goals @ phase_1 W @ phase_2 W @
        lit ''Phase 3: Advanced Application (Week '' @
        decimal (ceil_7_10 n + 1) @ lit ''-'' @ decimal (n - 1) @ lit '')'' @
        (r3 @ phase_4 @ daily_structure @ weekly_milestones W @ study_tips)"
      unfolding plan by (subst r3) (simp only: append_assoc)
    ultimately show ?thesis
      using decimal_is_numeral [of "ceil_7_10 n"] decimal_is_numeral [of "ceil_7_10 n + 1"]
        decimal_is_numeral [of "n - 1"]
      by blast
  qed
  from 1 2 show ?thesis by blast
qed

theorem fallback_plan_layout_witness:
  "durationWeeks_of (lit ''4 weeks'') = Fin 4 \<and> (4::nat) < 2 ^ 48 \<and>
   prefix (lit ''Study Plan for Biology (Beginner Level)'')
     (generateFallbackPlan (lit ''Biology'') (lit ''Beginner'') (lit ''4 weeks'') (lit ''Pass exam'')) \<and>
   sublist (lit ''Phase 2: Core Learning (Week 3-3)'')
     (generateFallbackPlan (lit ''Biology'') (lit ''Beginner'') (lit ''4 weeks'') (lit ''Pass exam'')) \<and>
   sublist (lit ''Phase 3: Advanced Application (Week 4-3)'')
     (generateFallbackPlan (lit ''Biology'') (lit ''Beginner'') (lit ''4 weeks'') (lit ''Pass exam'')) \<and>
   durationWeeks_of (lit ''100 weeks'') = Fin 100 \<and> (100::nat) < 2 ^ 48 \<and>
   sublist (lit ''Phase 2: Core Learning (Week 3-70)'')
     (generateFallbackPlan (lit ''Biology'') (lit ''Beginner'') (lit ''100 weeks'') (lit ''Pass exam'')) \<and>
   sublist (lit ''Phase 3: Advanced Application (Week 71-99)'')
     (generateFallbackPlan (lit ''Biology'') (lit ''Beginner'') (lit ''100 weeks'') (lit ''Pass exam''))"
proof -
  let ?plan = "generateFallbackPlan (lit ''Biology'') (lit ''Beginner'') (lit ''4 weeks'')
    (lit ''Pass exam'')"
  let ?head = "plan_header (lit ''Biology'') (lit ''Beginner'') (lit ''4 weeks'') (lit ''Pass exam'')"
  let ?plan' = "generateFallbackPlan (lit ''Biology'') (lit ''Beginner'') (lit ''100 weeks'')
    (lit ''Pass exam'')"
  let ?head' = "plan_header (lit ''Biology'') (lit ''Beginner'') (lit ''100 weeks'') (lit ''Pass exam'')"
  have n: "(4::nat) < 2 ^ 48" "(100::nat) < 2 ^ 48" by simp_all
  have ceil: "ceil_7_10 4 = 3" "ceil_7_10 100 = 70" by (simp_all add: ceil_7_10_def)
  have h: "lit ''Study Plan for '' @ lit ''Biology'' @ lit '' ('' @ lit ''Beginner'' @ lit '' Level)'' =
      lit ''Study Plan for Biology (Beginner Level)''"
    by (simp add: lit_def)
  note four = fallback_plan_layout [of "lit ''Biology''" "lit ''Beginner''" "lit ''4 weeks''"
      "lit ''Pass exam''", unfolded week_counts(1)]
  note hundred = fallback_plan_layout [of "lit ''Biology''" "lit ''Beginner''" "lit ''100 weeks''"
      "lit ''Pass exam''", unfolded week_counts(2)]
  from four have p: "prefix (lit ''Study Plan for Biology (Beginner Level)'') ?plan"
    unfolding h by (rule conjunct1)
  from four n(1) obtain c rest c' w rest' where
    "decimal_numeral c (ceil_7_10 4)"
    "?plan = ?head @ phase_1 (Fin 4) @ lit ''Phase 2: Core Learning (Week '' @
       (if (2::nat) < 4 then lit ''3-'' @ c else lit ''2'') @ lit '')'' @ rest"
    "decimal_numeral c' (ceil_7_10 4 + 1)" "decimal_numeral w (4 - 1)"
    "?plan = ?head @ phase_1 (Fin 4) @ phase_2 (Fin 4) @
       lit ''Phase 3: Advanced Application (Week '' @ c' @ lit ''-'' @ w @ lit '')'' @ rest'"
    by blast
  then have
    "?plan = ?head @ phase_1 (Fin 4) @ lit ''Phase 2: Core Learning (Week 3-3)'' @ rest"
    "?plan = ?head @ phase_1 (Fin 4) @ phase_2 (Fin 4) @
       lit ''Phase 3: Advanced Application (Week 4-3)'' @ rest'"
    using decimal_numeral_unique [of c 3] decimal_numeral_unique [of c' 4]
      decimal_numeral_unique [of w 3]
    by (simp_all add: ceil decimal_examples) (simp_all add: lit_def)
  then have s4: "sublist (lit ''Phase 2: Core Learning (Week 3-3)'') ?plan"
    "sublist (lit ''Phase 3: Advanced Application (Week 4-3)'') ?plan"
    by (blast intro: sublist_at sublist_at3)+
  from hundred n(2) obtain c rest c' w rest' where
    "decimal_numeral c (ceil_7_10 100)"
    "?plan' = ?head' @ phase_1 (Fin 100) @ lit ''Phase 2: Core Learning (Week '' @
       (if (2::nat) < 100 then lit ''3-'' @ c else lit ''2'') @ lit '')'' @ rest"
    "decimal_numeral c' (ceil_7_10 100 + 1)" "decimal_numeral w (100 - 1)"
    "?plan' = ?head' @ phase_1 (Fin 100) @ phase_2 (Fin 100) @
       lit ''Phase 3: Advanced Application (Week '' @ c' @ lit ''-'' @ w @ lit '')'' @ rest'"
    by blast
  then have
    "?plan' = ?head' @ phase_1 (Fin 100) @ lit ''Phase 2: Core Learning (Week 3-70)'' @ rest"
    "?plan' = ?head' @ phase_1 (Fin 100) @ phase_2 (Fin 100) @
       lit ''Phase 3: Advanced Application (Week 71-99)'' @ rest'"
    using decimal_numeral_unique [of c 70] decimal_numeral_unique [of c' 71]
      decimal_numeral_unique [of w 99]
    by (simp_all add: ceil decimal_examples) (simp_all add: lit_def)
  then have s100: "sublist (lit ''Phase 2: Core Learning (Week 3-70)'') ?plan'"
    "sublist (lit ''Phase 3: Advanced Application (Week 71-99)'') ?plan'"
    by (blast intro: sublist_at sublist_at3)+
  from p s4 s100 show ?thesis using week_counts n by simp
qed

text \<open>
  Claim C8 as it was stated has no bound on the week count. The product with 0.7 is
  computed in double precision: for 844435597183613 weeks it is rounded down to an integer
  before the ceiling is taken, and the label of Phase 2 ends in 591104918028529 where
  \<open>ceil(W * 0.7)\<close> is 591104918028530.
\<close>

theorem fallback_plan_layout_counterexample:
  "durationWeeks_of (lit ''844435597183613 weeks'') = Fin 844435597183613 \<and>
   ceil_7_10 844435597183613 = 591104918028530 \<and>
   prefix
     (plan_header (lit ''Biology'') (lit ''Beginner'') (lit ''844435597183613 weeks'') (lit ''Pass exam'') @
      phase_1 (Fin 844435597183613) @ lit ''Phase 2: Core Learning (Week 3-591104918028529)'')
     (generateFallbackPlan (lit ''Biology'') (lit ''Beginner'') (lit ''844435597183613 weeks'')
        (lit ''Pass exam'')) \<and>
   \<not> prefix
     (plan_header (lit ''Biology'') (lit ''Beginner'') (lit ''844435597183613 weeks'') (lit ''Pass exam'') @
      phase_1 (Fin 844435597183613) @ lit ''Phase 2: Core Learning (Week 3-591104918028530)'')
     (generateFallbackPlan (lit ''Biology'') (lit ''Beginner'') (lit ''844435597183613 weeks'')
        (lit ''Pass exam''))"
proof -
  let ?head = "plan_header (lit ''Biology'') (lit ''Beginner'') (lit ''844435597183613 weeks'')
    (lit ''Pass exam'')"
  let ?plan = "generateFallbackPlan (lit ''Biology'') (lit ''Beginner'')
    (lit ''844435597183613 weeks'') (lit ''Pass exam'')"
  let ?W = "Fin 844435597183613"
  obtain r2 where "phase_2 ?W =
      (lit ''Phase 2: Core Learning (Week '' @
       (if gt ?W 2 then lit ''3-'' @ Number_toString (ceil_times_0_7 ?W) else lit ''2'') @
       lit '')'') @ r2"
    using phase_2_starts by blast
  then have "phase_2 ?W = lit ''Phase 2: Core Learning (Week 3-591104918028529)'' @ r2"
    unfolding ceil_times_0_7_large
    by (simp add: Number_toString_def decimal_examples) (simp add: lit_def)
  then have plan: "?plan = (?head @ phase_1 ?W @ lit ''Phase 2: Core Learning (Week 3-591104918028529)'') @
      (r2 @ phase_3 ?W @ phase_4 @ daily_structure @ weekly_milestones ?W @ study_tips)"
    by (simp add: generateFallbackPlan_def plan_template_def Let_def week_counts)
  then have yes: "prefix (?head @ phase_1 ?W @ lit ''Phase 2: Core Learning (Week 3-591104918028529)'')
      ?plan"
    by (metis prefixI)
  have no: "\<not> prefix (?head @ phase_1 ?W @ lit ''Phase 2: Core Learning (Week 3-591104918028530)'')
      ?plan"
  proof
    assume "prefix (?head @ phase_1 ?W @ lit ''Phase 2: Core Learning (Week 3-591104918028530)'')
      ?plan"
    with yes have
      "prefix (?head @ phase_1 ?W @ lit ''Phase 2: Core Learning (Week 3-591104918028530)'')
         (?head @ phase_1 ?W @ lit ''Phase 2: Core Learning (Week 3-591104918028529)'') \<or>
       prefix (?head @ phase_1 ?W @ lit ''Phase 2: Core Learning (Week 3-591104918028529)'')
         (?head @ phase_1 ?W @ lit ''Phase 2: Core Learning (Week 3-591104918028530)'')"
      using prefix_same_cases by blast
    then show False by (simp add: lit_def)
  qed
  have "ceil_7_10 844435597183613 = 591104918028530" by (simp add: ceil_7_10_def)
  with yes no week_counts(3) show ?thesis by simp
qed

text \<open>
  Claim C9. A response with \<open>success\<close> true comes with at most one store write, and the
  document written carries the plan, the \<open>modelUsed\<close> and the \<open>isAiGenerated\<close> of the
  response: the texts of failed and rejected attempts are never written.
\<close>

theorem at_most_one_store_write:
  fixes ms :: "jsstring list" and sv :: services and b :: body
  defines "res \<equiv> fst (generate_plan_with ms sv b)"
      and "writes \<equiv> store_writes (snd (generate_plan_with ms sv b))"
  assumes success: "map_of (json res) ''success'' = Some (JBool True)"
  shows "length writes \<le> 1 \<and>
         (\<forall>doc\<in>set writes.
            map_of doc ''plan'' = map_of (json res) ''plan'' \<and>
            map_of doc ''modelUsed'' = map_of (json res) ''modelUsed'' \<and>
            map_of doc ''isAiGenerated'' = map_of (json res) ''isAiGenerated'')"
proof (cases "falsy (b ''subject'') \<or> falsy (b ''level'') \<or> falsy (b ''duration'') \<or> falsy (b ''goals'')")
  case True
  with success show ?thesis by (simp add: res_def generate_plan_with_def Let_def)
next
  case False
  then obtain subject level duration goals where
    valid: "valid_request b subject level duration goals"
    unfolding falsy_def valid_request_def by auto
  from run_cases [OF valid, of ms sv] show ?thesis
  proof
    assume run: "generate_plan_with ms sv b =
      (fst (fallback_branch sv subject level duration goals),
       map (\<lambda>m. TextGeneration m (build_prompt subject level duration goals)) ms @
       snd (fallback_branch sv subject level duration goals))"
    from fallback_branch_effects [of sv subject level duration goals] obtain doc where
      "snd (fallback_branch sv subject level duration goals) = [StoreAdd doc]"
      "map_of doc ''plan'' = Some (JString (generateFallbackPlan subject level duration goals))"
      "map_of doc ''modelUsed'' = Some (JString (lit ''fallback''))"
      "map_of doc ''isAiGenerated'' = Some (JBool False)"
      by blast
    then show ?thesis
      using fallback_branch_response [of sv subject level duration goals]
      by (simp add: res_def writes_def run store_writes_append)
  next
    assume "\<exists>k t. k < length ms \<and>
      attempt_of sv (build_prompt subject level duration goals) (ms ! k) = Success t \<and>
      generate_plan_with ms sv b =
        (fst (accept_branch sv subject level duration goals (ms ! k) t),
         map (\<lambda>m. TextGeneration m (build_prompt subject level duration goals)) (take (Suc k) ms) @
         snd (accept_branch sv subject level duration goals (ms ! k) t))"
    then obtain k t where run: "generate_plan_with ms sv b =
        (fst (accept_branch sv subject level duration goals (ms ! k) t),
         map (\<lambda>m. TextGeneration m (build_prompt subject level duration goals)) (take (Suc k) ms) @
         snd (accept_branch sv subject level duration goals (ms ! k) t))"
      by blast
    from accept_branch_effects [of sv subject level duration goals "ms ! k" t] obtain doc where
      "snd (accept_branch sv subject level duration goals (ms ! k) t) = [StoreAdd doc]"
      "map_of doc ''plan'' = Some (JString t)"
      "map_of doc ''modelUsed'' = Some (JString (ms ! k))"
      "map_of doc ''isAiGenerated'' = Some (JBool True)"
      by blast
    then show ?thesis
      using accept_branch_response [of sv subject level duration goals "ms ! k" t]
      by (simp add: res_def writes_def run store_writes_append)
  qed
qed

theorem at_most_one_store_write_witness:
  "map_of (json (fst (generate_plan outage example_body))) ''success'' = Some (JBool True) \<and>
   length (store_writes (snd (generate_plan outage example_body))) \<le> 1 \<and>
   list_all (\<lambda>doc. map_of doc ''plan'' = map_of (json (fst (generate_plan outage example_body))) ''plan'')
     (store_writes (snd (generate_plan outage example_body)))"
  using at_most_one_store_write [OF outage_success] outage_success
  by (simp add: generate_plan_def list_all_iff)

text \<open>
  Claim C10. A \<open>duration\<close> whose first integer is 0 is treated as one without any
  integer: the week count is 4 in both cases, and the plan is the template for that week
  count.
\<close>

theorem zero_duration_defaults:
  assumes "first_integer d = Some 0" and "first_integer d' = None"
  shows "durationWeeks_of d = Fin 4 \<and> durationWeeks_of d = durationWeeks_of d' \<and>
         generateFallbackPlan subject level d goals =
           plan_template (durationWeeks_of d') subject level d goals"
  using assms by (simp add: durationWeeks_of_cases generateFallbackPlan_def Let_def)

theorem zero_duration_defaults_witness:
  "first_integer (lit ''0 weeks'') = Some 0 \<and> first_integer (lit ''no number here'') = None \<and>
   durationWeeks_of (lit ''0 weeks'') = Fin 4 \<and>
   durationWeeks_of (lit ''0 weeks'') = durationWeeks_of (lit ''no number here'') \<and>
   generateFallbackPlan (lit ''Biology'') (lit ''Beginner'') (lit ''0 weeks'') (lit ''Pass exam'') =
     plan_template (durationWeeks_of (lit ''no number here''))
       (lit ''Biology'') (lit ''Beginner'') (lit ''0 weeks'') (lit ''Pass exam'')"
  using zero_duration_defaults [of "lit ''0 weeks''" "lit ''no number here''"
      "lit ''Biology''" "lit ''Beginner''" "lit ''Pass exam''"]
  by (simp add: first_integer_examples durationWeeks_of_cases)


end
